theory Spec2Isabelle
  imports Complex_Main
begin

section \<open>Data contracts of the chat client (the types module)\<close>

text \<open>
  The TypeScript interfaces become records. Optional fields (\<^verbatim>\<open>field?: T\<close>) are
  \<open>option\<close>s, string unions are datatypes. Field names are the source's; a name that
  two interfaces share carries a short suffix in all but one of them, because record
  fields live in one name space. Values of TypeScript type \<^verbatim>\<open>unknown\<close> are never
  inspected by the code modelled here and stay abstract.
\<close>

typedecl unknown

datatype Role = user | assistant

record ChatMessage =
  role :: Role
  content :: string

record ChatRequest =
  message_req :: string
  conversation_id_req :: "string option"
  context_req :: "(string \<times> unknown) list option"

record Citation =
  source_document_id_cit :: string
  chunk_id_cit :: "string option"
  quote :: string
  source_title_cit :: "string option"

record PlanStep =
  step_id :: string
  objective :: string
  recommended_facility :: string
  capability_ids :: "string list"
  inputs :: "string list"
  outputs :: "string list"
  constraints :: "string list"
  dependencies :: "string list"
  decision_points :: "string list"
  citations :: "Citation list"
  is_hypothesis :: bool

record RiskItem =
  risk :: string
  impact :: string
  alternative :: "string option"

record OPALPlan =
  goal_summary :: string
  assumptions :: "string list"
  steps :: "PlanStep list"
  open_questions :: "string list"
  risks_and_alternatives :: "RiskItem list"
  created_at_plan :: "string option"

record SearchResult =
  chunk_id :: string
  source_document_id :: string
  source_title :: string
  text_chunk :: string
  score :: real
  metadata :: "(string \<times> unknown) list option"

record ChatResponse =
  message :: string
  conversation_id :: string
  plan :: "OPALPlan option"
  sources :: "SearchResult list"


section \<open>The API client (lib/api.ts)\<close>

subsection \<open>Errors and the transport\<close>

text \<open>
  The \<^verbatim>\<open>detail\<close> property of the parsed body of a failed response, as
  \<^verbatim>\<open>error.detail || ...\<close> and the constructor of \<^verbatim>\<open>Error\<close> see it: missing; a
  string; a value that is no string and falsy (\<^verbatim>\<open>null\<close>, \<^verbatim>\<open>false\<close>, \<^verbatim>\<open>0\<close>); or
  a value that is no string and truthy (an array of validation errors, say), given
  with the string that the constructor of \<^verbatim>\<open>Error\<close> converts it to.
\<close>

datatype Property =
    Missing
  | Text string
  | Falsy
  | Truthy string

text \<open>
  \<^verbatim>\<open>class APIError extends Error\<close> has a message, a numeric status and optional
  details. The details argument is of type \<^verbatim>\<open>unknown\<close>; the constructor calls of
  the module pass four shapes, one constructor each: nothing, the parsed error body of
  a failed response (of which only the \<^verbatim>\<open>detail\<close> property is read),
  \<^verbatim>\<open>{ job_id, error }\<close> and \<^verbatim>\<open>{ job_id, max_wait_time }\<close>.
\<close>

datatype Details =
    No_details
  | Error_body Property
  | Job_error "string" "string option"
  | Wait_exceeded "string" int

record APIError =
  message_err :: string
  status_err :: nat
  details :: Details

text \<open>
  What a \<^verbatim>\<open>throw\<close> carries: an \<open>APIError\<close>, or any other value (the
  \<^verbatim>\<open>TypeError\<close> of a failed \<^verbatim>\<open>fetch\<close> or of a property read on \<^verbatim>\<open>null\<close>,
  say), of which the callers read the \<^verbatim>\<open>message\<close> property only.
\<close>

datatype Thrown =
    Thrown_APIError APIError
  | Thrown_other "string option"

text \<open>
  The body of a response that is not ok, as \<^verbatim>\<open>response.json()\<close> gives it: it does
  not parse (the promise rejects); it is the JSON value \<^verbatim>\<open>null\<close>; or it is any
  other JSON value, given by its \<^verbatim>\<open>detail\<close> property (missing on a number, a
  string, a boolean, and on an array or object without it). Reading a property of
  \<^verbatim>\<open>null\<close> raises a \<^verbatim>\<open>TypeError\<close> whose message is worded by the engine, so
  the null body comes with that message.
\<close>

datatype Body =
    Unparseable
  | Null_body string
  | Value_body Property

text \<open>
  One HTTP exchange as \<^verbatim>\<open>fetchAPI\<close> sees it: a response with \<^verbatim>\<open>response.ok\<close>
  and its parsed JSON body; a response that is not ok, with its status and its body;
  or a rejection without a response, with the message of what is thrown, if it has
  one (\<^verbatim>\<open>fetch\<close> itself rejecting, or the body of an ok response not parsing).
\<close>

datatype 'a Exchange =
    Response_ok 'a
  | Response_not_ok nat Body
  | Fetch_rejected "string option"

definition digit_char :: "nat \<Rightarrow> char" where
  "digit_char n = ''0123456789'' ! n"

function decimal :: "nat \<Rightarrow> string" where
  "decimal n = (if n < 10 then [digit_char n] else decimal (n div 10) @ [digit_char (n mod 10)])"
  by pat_completeness auto
termination
  by (relation "measure (\<lambda>n. n)") auto

text \<open>JavaScript's \<^verbatim>\<open>a || b\<close> on an optional string: absent and empty are falsy.\<close>

fun or_else :: "string option \<Rightarrow> string \<Rightarrow> string" where
  "or_else None d = d"
| "or_else (Some s) d = (if s = [] then d else s)"

text \<open>
  \<^verbatim>\<open>error.detail || fallback\<close>, passed on as the message of an \<^verbatim>\<open>Error\<close>.
\<close>

fun detail_or :: "Property \<Rightarrow> string \<Rightarrow> string" where
  "detail_or Missing d = d"
| "detail_or (Text s) d = (if s = [] then d else s)"
| "detail_or Falsy d = d"
| "detail_or (Truthy s) d = s"

text \<open>
  \<^verbatim>\<open>const error = await response.json().catch(() => ({}))\<close>: a body that does not
  parse is replaced by the empty object, which has no \<^verbatim>\<open>detail\<close>; any other body
  is taken as it is.
\<close>

fun parsed_or_empty :: "Body \<Rightarrow> Body" where
  "parsed_or_empty Unparseable = Value_body Missing"
| "parsed_or_empty b = b"

text \<open>
  For a response that is not ok, the argument \<^verbatim>\<open>error.detail\<close> is evaluated first:
  on the body \<^verbatim>\<open>null\<close> it raises the \<^verbatim>\<open>TypeError\<close>, and no \<open>APIError\<close> is made.
\<close>

definition fetchAPI :: "'a Exchange \<Rightarrow> Thrown + 'a" where
  "fetchAPI x =
     (case x of
        Fetch_rejected m \<Rightarrow> Inl (Thrown_other m)
      | Response_not_ok st b \<Rightarrow>
          (case parsed_or_empty b of
             Null_body m \<Rightarrow> Inl (Thrown_other (Some m))
           | Value_body d \<Rightarrow>
               Inl (Thrown_APIError
                     \<lparr>message_err = detail_or d (''API error: '' @ decimal st),
                      status_err = st,
                      details = Error_body d\<rparr>)
           | Unparseable \<Rightarrow>
               Inl (Thrown_APIError
                     \<lparr>message_err = ''API error: '' @ decimal st,
                      status_err = st,
                      details = Error_body Missing\<rparr>))
      | Response_ok body \<Rightarrow> Inr body)"

subsection \<open>Jobs\<close>

datatype JobStatus = pending | processing | completed | failed

record JobResponse =
  id_job :: string
  job_type :: string
  status :: JobStatus
  input_data :: "(string \<times> unknown) list option"
  result :: "ChatResponse option"
  error :: "string option"
  progress :: real
  progress_message :: "string option"
  created_at :: string
  started_at :: "string option"
  completed_at :: "string option"

record SubmitResponse =
  job_id :: string

definition sendChatMessage :: "SubmitResponse Exchange \<Rightarrow> Thrown + SubmitResponse" where
  "sendChatMessage x = fetchAPI x"

definition getChatJob :: "JobResponse Exchange \<Rightarrow> Thrown + JobResponse" where
  "getChatJob x = fetchAPI x"

subsection \<open>The poll loop\<close>

text \<open>
  \<^verbatim>\<open>waitForChatJob\<close> reads the clock (\<^verbatim>\<open>Date.now()\<close>, milliseconds) once before the
  loop and once at every loop test, fetches, and sleeps with \<^verbatim>\<open>setTimeout\<close>. The
  model passes the clock along. The world outside is a script: one entry per
  iteration, giving how long the fetch took, what it produced, and by how much the
  timer fired late (a timer never fires early). When the script is used up and the
  loop would fetch again, the promise has not settled: \<open>Unsettled\<close>.
\<close>

record Poll =
  latency :: nat
  exchange :: "JobResponse Exchange"
  lateness :: nat

record Options =
  maxWaitTime :: "int option"
  pollInterval :: "int option"
  onProgress :: bool

text \<open>\<^verbatim>\<open>options.x || d\<close> on an optional number: absent and \<open>0\<close> are falsy.\<close>

fun or_default :: "int option \<Rightarrow> int \<Rightarrow> int" where
  "or_default None d = d"
| "or_default (Some n) d = (if n = 0 then d else n)"

datatype Settled =
    Resolved ChatResponse
  | Rejected Thrown
  | Unsettled

record Waited =
  outcome :: Settled
  settled_at :: int
  reported :: "JobResponse list"

text \<open>
  The body of the \<^verbatim>\<open>try\<close> block up to the sleep, for one fetched exchange: it
  returns the result, throws, or falls through to the sleep.
\<close>

datatype Step = Return ChatResponse | Throw Thrown | Sleep

definition try_block :: "string \<Rightarrow> JobResponse \<Rightarrow> Step" where
  "try_block jobId job =
     (if status job = completed then
        (case result job of
           None \<Rightarrow> Throw (Thrown_APIError
                     \<lparr>message_err = ''Job completed but no result returned'',
                      status_err = 500, details = No_details\<rparr>)
         | Some r \<Rightarrow> Return r)
      else if status job = failed then
        Throw (Thrown_APIError
                \<lparr>message_err = or_else (error job) ''Chat job failed'',
                 status_err = 500,
                 details = Job_error jobId (error job)\<rparr>)
      else Sleep)"

text \<open>
  The \<^verbatim>\<open>catch\<close> clause: an \<open>APIError\<close> with status 404 is answered by a sleep and
  \<^verbatim>\<open>continue\<close>, anything else is thrown again.
\<close>

fun catch_block :: "Thrown \<Rightarrow> Step" where
  "catch_block (Thrown_APIError e) = (if status_err e = 404 then Sleep else Throw (Thrown_APIError e))"
| "catch_block (Thrown_other m) = Throw (Thrown_other m)"

definition iteration :: "string \<Rightarrow> JobResponse Exchange \<Rightarrow> Step" where
  "iteration jobId x =
     (case getChatJob x of
        Inl e \<Rightarrow> catch_block e
      | Inr job \<Rightarrow>
          (case try_block jobId job of
             Throw e \<Rightarrow> catch_block e
           | Return r \<Rightarrow> Return r
           | Sleep \<Rightarrow> Sleep))"

text \<open>
  The callback runs for a fetch that produced a snapshot, before the status is read.
  It is taken to return: the callback of the chat page writes to the console.
\<close>

definition report :: "bool \<Rightarrow> JobResponse Exchange \<Rightarrow> JobResponse list" where
  "report cb x = (case getChatJob x of Inr job \<Rightarrow> (if cb then [job] else []) | Inl e \<Rightarrow> [])"

text \<open>
  \<^verbatim>\<open>setTimeout(resolve, pollInterval)\<close>: a negative delay counts as zero. Delays
  are those a timer takes as they are, below \<open>2\<^sup>3\<^sup>1\<close> ms; the hosts differ on
  larger ones.
\<close>

definition sleep :: "int \<Rightarrow> nat \<Rightarrow> int" where
  "sleep interval late = max 0 interval + int late"

definition timeout_error :: "string \<Rightarrow> int \<Rightarrow> Thrown" where
  "timeout_error jobId maxWait =
     Thrown_APIError \<lparr>message_err = ''Chat job polling timeout'', status_err = 504,
                      details = Wait_exceeded jobId maxWait\<rparr>"

fun poll_loop ::
  "string \<Rightarrow> int \<Rightarrow> int \<Rightarrow> bool \<Rightarrow> int \<Rightarrow> int \<Rightarrow> JobResponse list \<Rightarrow> Poll list \<Rightarrow> Waited" where
  "poll_loop jobId maxWait interval cb startTime now seen [] =
     (if now - startTime < maxWait
      then \<lparr>outcome = Unsettled, settled_at = now, reported = seen\<rparr>
      else \<lparr>outcome = Rejected (timeout_error jobId maxWait), settled_at = now, reported = seen\<rparr>)"
| "poll_loop jobId maxWait interval cb startTime now seen (p # ps) =
     (if now - startTime < maxWait then
        (let fetched = now + int (latency p);
             seen' = seen @ report cb (exchange p)
         in case iteration jobId (exchange p) of
              Return r \<Rightarrow> \<lparr>outcome = Resolved r, settled_at = fetched, reported = seen'\<rparr>
            | Throw e \<Rightarrow> \<lparr>outcome = Rejected e, settled_at = fetched, reported = seen'\<rparr>
            | Sleep \<Rightarrow>
                poll_loop jobId maxWait interval cb startTime
                  (fetched + sleep interval (lateness p)) seen' ps)
      else \<lparr>outcome = Rejected (timeout_error jobId maxWait), settled_at = now, reported = seen\<rparr>)"

text \<open>The first two lines of \<^verbatim>\<open>waitForChatJob\<close>: the values the loop works with.\<close>

definition maxWaitTime_of :: "Options \<Rightarrow> int" where
  "maxWaitTime_of options = or_default (maxWaitTime options) (10 * 60 * 1000)"

definition pollInterval_of :: "Options \<Rightarrow> int" where
  "pollInterval_of options = or_default (pollInterval options) 5000"

definition waitForChatJob :: "string \<Rightarrow> Options \<Rightarrow> int \<Rightarrow> Poll list \<Rightarrow> Waited" where
  "waitForChatJob jobId options startTime script =
     poll_loop jobId (maxWaitTime_of options) (pollInterval_of options)
       (onProgress options) startTime startTime [] script"


section \<open>The message box (components/Chat/MessageInput.tsx, ChatPanel.tsx)\<close>

text \<open>
  \<^verbatim>\<open>String.prototype.trim\<close> removes white space at both ends. Characters here are
  code units below 256, of which tab, line feed, vertical tab, form feed, carriage
  return, space and the no-break space are white space.
\<close>

definition is_space :: "char \<Rightarrow> bool" where
  "is_space c = (of_char c \<in> set [9, 10, 11, 12, 13, 32, 160 :: nat])"

definition trim :: "string \<Rightarrow> string" where
  "trim s = rev (dropWhile is_space (rev (dropWhile is_space s)))"

text \<open>
  \<^verbatim>\<open>handleSubmit\<close> reads the text of the box and the \<^verbatim>\<open>disabled\<close> property. It
  gives the argument with which it calls \<^verbatim>\<open>onSend\<close> (\<open>None\<close> when it does not call
  it) and the text left in the box.
\<close>

definition handleSubmit :: "string \<Rightarrow> bool \<Rightarrow> string option \<times> string" where
  "handleSubmit input disabled =
     (if trim input \<noteq> [] \<and> \<not> disabled then (Some (trim input), []) else (None, input))"


section \<open>The chat page (app/chat/page.tsx)\<close>

definition WELCOME_MESSAGE :: ChatMessage where
  \<open>WELCOME_MESSAGE =
     \<lparr>role = assistant,
      content =
        ''Welcome to the **OPAL Orchestrator**! I'' @ [CHR 0x27] @ ''m here to help you plan cross-lab biological research projects across the OPAL network.''
        @ [CHR 0x0A, CHR 0x0A]
        @ ''Tell me about your research goal, and I'' @ [CHR 0x27] @ ''ll help you:'' @ [CHR 0x0A]
        @ ''- Identify relevant OPAL capabilities and facilities'' @ [CHR 0x0A]
        @ ''- Create a sequenced research plan with citations'' @ [CHR 0x0A]
        @ ''- Find the fastest path to actionable insights'' @ [CHR 0x0A, CHR 0x0A]
        @ ''**Example:** "I want to develop a drought-tolerant microbial strain that produces plant growth hormones and can associate with plant roots."''
        @ [CHR 0x0A, CHR 0x0A]
        @ ''What research goal would you like to explore?''\<rparr>\<close>

text \<open>The \<^verbatim>\<open>useState\<close> cells of \<^verbatim>\<open>ChatPageContent\<close>.\<close>

record Page =
  messages :: "ChatMessage list"
  initialGoalProcessed :: bool
  currentPlan :: "OPALPlan option"
  sources_st :: "SearchResult list"
  conversationId :: "string option"
  isLoading :: bool
  isHistoryOpen :: bool

definition initial_page :: Page where
  "initial_page =
     \<lparr>messages = [WELCOME_MESSAGE], initialGoalProcessed = False, currentPlan = None,
      sources_st = [], conversationId = None, isLoading = False, isHistoryOpen = False\<rparr>"

subsection \<open>\<^verbatim>\<open>handleSendMessage\<close>, piece by piece\<close>

text \<open>
  The function is asynchronous. Its first part runs at the call: it appends the user
  message, sets the loading flag and posts the request. Its second part runs when the
  awaited submission and poll have settled, on the state as it is then (every setter
  of the second part is a functional update or writes a constant). Other handlers can
  run in between, so the two parts are separate state transformers.
\<close>

definition chat_request :: "string \<Rightarrow> Page \<Rightarrow> ChatRequest" where
  "chat_request content' s =
     \<lparr>message_req = content',
      conversation_id_req =
        (case conversationId s of None \<Rightarrow> None | Some c \<Rightarrow> if c = [] then None else Some c),
      context_req = None\<rparr>"

definition send_begin :: "string \<Rightarrow> Page \<Rightarrow> Page" where
  "send_begin content' s =
     s\<lparr>messages := messages s @ [\<lparr>role = user, content = content'\<rparr>], isLoading := True\<rparr>"

text \<open>
  The two awaits: the submission, then the poll under the default wait and interval
  with a progress callback (which logs and nothing else).
\<close>

definition submit_and_wait :: "SubmitResponse Exchange \<Rightarrow> int \<Rightarrow> Poll list \<Rightarrow> Settled" where
  "submit_and_wait x startTime script =
     (case sendChatMessage x of
        Inl e \<Rightarrow> Rejected e
      | Inr submitResponse \<Rightarrow>
          outcome (waitForChatJob (job_id submitResponse)
                     \<lparr>maxWaitTime = None, pollInterval = None, onProgress = True\<rparr>
                     startTime script))"

text \<open>The updater passed to \<^verbatim>\<open>setSources\<close>.\<close>

definition deduplicate :: "SearchResult list \<Rightarrow> SearchResult list \<Rightarrow> SearchResult list" where
  "deduplicate prev incoming =
     (let existing = set (map chunk_id prev);
          newSources = filter (\<lambda>s. chunk_id s \<notin> existing) incoming
      in prev @ newSources)"

definition on_response :: "ChatResponse \<Rightarrow> Page \<Rightarrow> Page" where
  "on_response response s =
     (let s1 = (if conversation_id response \<noteq> []
                then s\<lparr>conversationId := Some (conversation_id response)\<rparr> else s);
          s2 = s1\<lparr>messages := messages s1 @ [\<lparr>role = assistant, content = message response\<rparr>]\<rparr>;
          s3 = (case plan response of Some p \<Rightarrow> s2\<lparr>currentPlan := Some p\<rparr> | None \<Rightarrow> s2)
      in if length (sources response) > 0
         then s3\<lparr>sources_st := deduplicate (sources_st s3) (sources response)\<rparr>
         else s3)"

fun message_of :: "Thrown \<Rightarrow> string option" where
  "message_of (Thrown_APIError e) = Some (message_err e)"
| "message_of (Thrown_other m) = m"

definition on_catch :: "Thrown \<Rightarrow> Page \<Rightarrow> Page" where
  "on_catch e s =
     (let errorContent =
            or_else (message_of e)
              ''Sorry, I encountered an error processing your request. Please try again.''
      in s\<lparr>messages := messages s @ [\<lparr>role = assistant, content = errorContent\<rparr>]\<rparr>)"

definition on_finally :: "Page \<Rightarrow> Page" where
  "on_finally s = s\<lparr>isLoading := False\<rparr>"

fun send_settle :: "Settled \<Rightarrow> Page \<Rightarrow> Page" where
  "send_settle (Resolved response) s = on_finally (on_response response s)"
| "send_settle (Rejected e) s = on_finally (on_catch e s)"
| "send_settle Unsettled s = s"

text \<open>A turn during which no other handler runs.\<close>

definition handleSendMessage ::
  "string \<Rightarrow> SubmitResponse Exchange \<Rightarrow> int \<Rightarrow> Poll list \<Rightarrow> Page \<Rightarrow> Page" where
  "handleSendMessage content' x startTime script s =
     send_settle (submit_and_wait x startTime script) (send_begin content' s)"

subsection \<open>The other handlers\<close>

definition handleNewChat :: "Page \<Rightarrow> Page" where
  "handleNewChat s =
     s\<lparr>messages := [WELCOME_MESSAGE], currentPlan := None, sources_st := [],
       conversationId := None, initialGoalProcessed := False\<rparr>"

text \<open>
  The effect on the \<^verbatim>\<open>goal\<close> query parameter. React runs it after a render in which
  \<^verbatim>\<open>initialGoalProcessed\<close> (or another dependency) has changed. It gives the state
  and the requests posted.
\<close>

definition goal_effect :: "string option \<Rightarrow> Page \<Rightarrow> Page \<times> ChatRequest list" where
  "goal_effect goal s =
     (if or_else goal [] \<noteq> [] \<and> \<not> initialGoalProcessed s
      then (send_begin (or_else goal []) (s\<lparr>initialGoalProcessed := True\<rparr>),
            [chat_request (or_else goal []) s])
      else (s, []))"

text \<open>
  The send button and the Enter key: \<^verbatim>\<open>ChatPanel\<close> passes \<^verbatim>\<open>isLoading\<close> as
  \<^verbatim>\<open>disabled\<close> and \<^verbatim>\<open>handleSendMessage\<close> as \<^verbatim>\<open>onSend\<close>.
\<close>

definition type_and_send :: "string \<Rightarrow> Page \<Rightarrow> Page \<times> ChatRequest list" where
  "type_and_send input s =
     (case fst (handleSubmit input (isLoading s)) of
        None \<Rightarrow> (s, [])
      | Some content' \<Rightarrow> (send_begin content' s, [chat_request content' s]))"


section \<open>Sample data\<close>

text \<open>Concrete values on which the theorems below are exercised.\<close>

definition snapshot :: "JobStatus \<Rightarrow> ChatResponse option \<Rightarrow> string option \<Rightarrow> JobResponse" where
  "snapshot st r e =
     \<lparr>id_job = ''j1'', job_type = ''chat'', status = st, input_data = None, result = r,
      error = e, progress = 0, progress_message = None,
      created_at = ''2025-06-01T09:00:00Z'', started_at = None, completed_at = None\<rparr>"

definition citation :: "string \<Rightarrow> string \<Rightarrow> SearchResult" where
  "citation c t =
     \<lparr>chunk_id = c, source_document_id = ''d1'', source_title = ''Capability handbook'',
      text_chunk = t, score = 1, metadata = None\<rparr>"

definition drought_plan :: OPALPlan where
  "drought_plan =
     \<lparr>goal_summary = ''Drought-tolerant strain'', assumptions = [], steps = [],
      open_questions = [], risks_and_alternatives = [], created_at_plan = None\<rparr>"

definition reply :: ChatResponse where
  "reply =
     \<lparr>message = ''Here is a plan...'', conversation_id = ''conv-1'',
      plan = Some drought_plan, sources = [citation ''c1'' ''Root assays'']\<rparr>"

definition took :: "nat \<Rightarrow> JobResponse Exchange \<Rightarrow> Poll" where
  "took n x = \<lparr>latency = n, exchange = x, lateness = 0\<rparr>"

definition defaults :: Options where
  "defaults = \<lparr>maxWaitTime = None, pollInterval = None, onProgress = True\<rparr>"

definition accepted :: "SubmitResponse Exchange" where
  "accepted = Response_ok \<lparr>job_id = ''j1''\<rparr>"

section \<open>Facts about the poll loop\<close>

lemma poll_loop_deadline:
  "\<not> now - st < M \<Longrightarrow> poll_loop j M I cb st now seen ps
     = \<lparr>outcome = Rejected (timeout_error j M), settled_at = now, reported = seen\<rparr>"
  by (cases ps) simp_all

lemma poll_loop_Return:
  "now - st < M \<Longrightarrow> iteration j (exchange p) = Return r \<Longrightarrow>
   poll_loop j M I cb st now seen (p # ps)
     = \<lparr>outcome = Resolved r, settled_at = now + int (latency p),
        reported = seen @ report cb (exchange p)\<rparr>"
  by (simp add: Let_def)

lemma poll_loop_Throw:
  "now - st < M \<Longrightarrow> iteration j (exchange p) = Throw e \<Longrightarrow>
   poll_loop j M I cb st now seen (p # ps)
     = \<lparr>outcome = Rejected e, settled_at = now + int (latency p),
        reported = seen @ report cb (exchange p)\<rparr>"
  by (simp add: Let_def)

lemma poll_loop_Sleep:
  "now - st < M \<Longrightarrow> iteration j (exchange p) = Sleep \<Longrightarrow>
   poll_loop j M I cb st now seen (p # ps)
     = poll_loop j M I cb st (now + int (latency p) + sleep I (lateness p))
         (seen @ report cb (exchange p)) ps"
  by (simp add: Let_def)

lemma iteration_snapshot:
  "iteration j (Response_ok job) =
     (if status job = completed then (case result job of None \<Rightarrow>
          Throw (Thrown_APIError \<lparr>message_err = ''Job completed but no result returned'',
                                  status_err = 500, details = No_details\<rparr>)
        | Some r \<Rightarrow> Return r)
      else if status job = failed then
        Throw (Thrown_APIError \<lparr>message_err = or_else (error job) ''Chat job failed'',
                                status_err = 500, details = Job_error j (error job)\<rparr>)
      else Sleep)"
  by (simp add: iteration_def getChatJob_def fetchAPI_def try_block_def split: option.splits)

lemma getChatJob_not_ok:
  "getChatJob (Response_not_ok s Unparseable)
     = Inl (Thrown_APIError \<lparr>message_err = ''API error: '' @ decimal s,
                              status_err = s, details = Error_body Missing\<rparr>)"
  "getChatJob (Response_not_ok s (Value_body d))
     = Inl (Thrown_APIError \<lparr>message_err = detail_or d (''API error: '' @ decimal s),
                              status_err = s, details = Error_body d\<rparr>)"
  "getChatJob (Response_not_ok s (Null_body m)) = Inl (Thrown_other (Some m))"
  by (simp_all add: getChatJob_def fetchAPI_def)

lemma iteration_thrown:
  "getChatJob x = Inl (Thrown_APIError e) \<Longrightarrow>
     iteration j x = (if status_err e = 404 then Sleep else Throw (Thrown_APIError e))"
  "getChatJob x = Inl (Thrown_other m) \<Longrightarrow> iteration j x = Throw (Thrown_other m)"
  by (simp_all add: iteration_def)

lemma report_thrown: "getChatJob x = Inl e \<Longrightarrow> report cb x = []"
  by (simp add: report_def)

lemma iteration_not_ok:
  "iteration j (Response_not_ok s Unparseable) =
     (if s = 404 then Sleep
      else Throw (Thrown_APIError \<lparr>message_err = ''API error: '' @ decimal s,
                                   status_err = s, details = Error_body Missing\<rparr>))"
  "iteration j (Response_not_ok s (Value_body d)) =
     (if s = 404 then Sleep
      else Throw (Thrown_APIError \<lparr>message_err = detail_or d (''API error: '' @ decimal s),
                                   status_err = s, details = Error_body d\<rparr>))"
  "iteration j (Response_not_ok s (Null_body m)) = Throw (Thrown_other (Some m))"
  by (simp_all add: iteration_def getChatJob_def fetchAPI_def)

lemma iteration_rejected: "iteration j (Fetch_rejected m) = Throw (Thrown_other m)"
  by (simp add: iteration_def getChatJob_def fetchAPI_def)

lemma report_snapshot: "report cb (Response_ok job) = (if cb then [job] else [])"
  by (simp add: report_def getChatJob_def fetchAPI_def)

lemma report_failure:
  "report cb (Response_not_ok s b) = []" "report cb (Fetch_rejected m) = []"
  by (cases "parsed_or_empty b"; simp add: report_def getChatJob_def fetchAPI_def)
     (simp add: report_def getChatJob_def fetchAPI_def)

lemma reported_extends:
  "\<exists>tail. reported (poll_loop j M I cb st now seen ps) = seen @ tail"
proof (induction ps arbitrary: now seen)
  case Nil
  show ?case by simp
next
  case (Cons p ps)
  show ?case
  proof (cases "now - st < M")
    case False
    then show ?thesis by simp
  next
    case True
    show ?thesis
    proof (cases "iteration j (exchange p)")
      case (Return r)
      with True show ?thesis by (simp add: poll_loop_Return)
    next
      case (Throw e)
      with True show ?thesis by (simp add: poll_loop_Throw)
    next
      case Sleep
      obtain tail where
        "reported (poll_loop j M I cb st (now + int (latency p) + sleep I (lateness p))
                    (seen @ report cb (exchange p)) ps) = (seen @ report cb (exchange p)) @ tail"
        using Cons.IH by blast
      with True Sleep show ?thesis by (simp add: poll_loop_Sleep)
    qed
  qed
qed

lemma defaults_values [simp]:
  "maxWaitTime_of defaults = 600000" "pollInterval_of defaults = 5000" "onProgress defaults"
  by (simp_all add: defaults_def maxWaitTime_of_def pollInterval_of_def)

lemma poll_loop_settles:
  assumes "0 < I" and "M - (now - st) \<le> int (length ps) * I"
  shows "outcome (poll_loop j M I cb st now seen ps) \<noteq> Unsettled"
  using assms(2)
proof (induction ps arbitrary: now seen)
  case Nil
  then show ?case by simp
next
  case (Cons p ps)
  show ?case
  proof (cases "now - st < M")
    case False
    then show ?thesis by (simp add: poll_loop_deadline)
  next
    case True
    show ?thesis
    proof (cases "iteration j (exchange p)")
      case (Return r)
      with True show ?thesis by (simp add: poll_loop_Return)
    next
      case (Throw e)
      with True show ?thesis by (simp add: poll_loop_Throw)
    next
      case Sleep
      let ?now' = "now + int (latency p) + sleep I (lateness p)"
      have "I \<le> sleep I (lateness p)"
        by (simp add: sleep_def)
      then have "M - (?now' - st) \<le> M - (now - st) - I"
        by simp
      also have "\<dots> \<le> int (length ps) * I"
        using Cons.prems by (simp add: algebra_simps)
      finally have "outcome (poll_loop j M I cb st ?now' (seen @ report cb (exchange p)) ps) \<noteq> Unsettled"
        by (rule Cons.IH)
      with True Sleep show ?thesis by (simp add: poll_loop_Sleep)
    qed
  qed
qed

section \<open>Terminal snapshots\<close>

text \<open>
  Claim C3. Whenever the loop test has passed and the fetch has produced a snapshot:
  a snapshot with status \<open>completed\<close> and no result rejects the poll with the status-500
  error ``Job completed but no result returned'' (no details); a snapshot with status
  \<open>failed\<close> rejects it with a status-500 error whose message is the job's error text, or
  ``Chat job failed'' when the text is absent or empty, and whose details are the job id
  and the error; a completed snapshot with a result resolves the poll with that result.
  What is thrown for a completed snapshot without result differs from what is thrown
  for any failed snapshot.
\<close>

theorem terminal_snapshot_settles:
  assumes "now - st < M" and "exchange p = Response_ok job"
  shows
   "(status job = completed \<and> result job = None \<longrightarrow>
       outcome (poll_loop j M I cb st now seen (p # ps))
         = Rejected (Thrown_APIError \<lparr>message_err = ''Job completed but no result returned'',
                                       status_err = 500, details = No_details\<rparr>))
    \<and> (status job = failed \<longrightarrow>
       outcome (poll_loop j M I cb st now seen (p # ps))
         = Rejected (Thrown_APIError \<lparr>message_err = or_else (error job) ''Chat job failed'',
                                       status_err = 500, details = Job_error j (error job)\<rparr>))
    \<and> (\<forall>r. status job = completed \<and> result job = Some r \<longrightarrow>
       outcome (poll_loop j M I cb st now seen (p # ps)) = Resolved r)
    \<and> (\<forall>job' :: JobResponse. status job = completed \<and> result job = None \<and> status job' = failed \<longrightarrow>
       try_block j job \<noteq> try_block j job')"
proof (intro conjI allI impI)
  assume "status job = completed \<and> result job = None"
  then have "iteration j (exchange p) = Throw (Thrown_APIError
      \<lparr>message_err = ''Job completed but no result returned'', status_err = 500, details = No_details\<rparr>)"
    using assms(2) by (simp add: iteration_snapshot)
  with assms(1) show "outcome (poll_loop j M I cb st now seen (p # ps))
         = Rejected (Thrown_APIError \<lparr>message_err = ''Job completed but no result returned'',
                                       status_err = 500, details = No_details\<rparr>)"
    by (simp add: poll_loop_Throw)
next
  assume "status job = failed"
  then have "iteration j (exchange p) = Throw (Thrown_APIError
      \<lparr>message_err = or_else (error job) ''Chat job failed'', status_err = 500,
       details = Job_error j (error job)\<rparr>)"
    using assms(2) by (simp add: iteration_snapshot)
  with assms(1) show "outcome (poll_loop j M I cb st now seen (p # ps))
         = Rejected (Thrown_APIError \<lparr>message_err = or_else (error job) ''Chat job failed'',
                                       status_err = 500, details = Job_error j (error job)\<rparr>)"
    by (simp add: poll_loop_Throw)
next
  fix r assume "status job = completed \<and> result job = Some r"
  then have "iteration j (exchange p) = Return r"
    using assms(2) by (simp add: iteration_snapshot)
  with assms(1) show "outcome (poll_loop j M I cb st now seen (p # ps)) = Resolved r"
    by (simp add: poll_loop_Return)
next
  fix job' :: JobResponse assume "status job = completed \<and> result job = None \<and> status job' = failed"
  then show "try_block j job \<noteq> try_block j job'"
    by (simp add: try_block_def)
qed

theorem terminal_snapshot_settles_witness:
  "(0::int) - 0 < 600000
   \<and> exchange (took 20 (Response_ok (snapshot failed None (Some ''model overloaded''))))
       = Response_ok (snapshot failed None (Some ''model overloaded''))
   \<and> status (snapshot failed None (Some ''model overloaded'')) = failed
   \<and> outcome (poll_loop ''j1'' 600000 5000 True 0 0 []
                [took 20 (Response_ok (snapshot failed None (Some ''model overloaded'')))])
       = Rejected (Thrown_APIError \<lparr>message_err = ''model overloaded'', status_err = 500,
                                     details = Job_error ''j1'' (Some ''model overloaded'')\<rparr>)
   \<and> exchange (took 20 (Response_ok (snapshot completed None None)))
       = Response_ok (snapshot completed None None)
   \<and> status (snapshot completed None None) = completed \<and> result (snapshot completed None None) = None
   \<and> outcome (poll_loop ''j1'' 600000 5000 True 0 0 []
                [took 20 (Response_ok (snapshot completed None None))])
       = Rejected (Thrown_APIError \<lparr>message_err = ''Job completed but no result returned'',
                                     status_err = 500, details = No_details\<rparr>)
   \<and> try_block ''j1'' (snapshot completed None None)
       \<noteq> try_block ''j1'' (snapshot failed None (Some ''model overloaded''))
   \<and> exchange (took 20 (Response_ok (snapshot completed (Some reply) None)))
       = Response_ok (snapshot completed (Some reply) None)
   \<and> result (snapshot completed (Some reply) None) = Some reply
   \<and> outcome (poll_loop ''j1'' 600000 5000 True 0 0 []
                [took 20 (Response_ok (snapshot completed (Some reply) None))])
       = Resolved reply"
  using terminal_snapshot_settles [of 0 0 600000 "took 20 (Response_ok (snapshot failed None (Some ''model overloaded'')))"
          "snapshot failed None (Some ''model overloaded'')" "''j1''" 5000 True "[]" "[]"]
        terminal_snapshot_settles [of 0 0 600000 "took 20 (Response_ok (snapshot completed None None))"
          "snapshot completed None None" "''j1''" 5000 True "[]" "[]"]
        terminal_snapshot_settles [of 0 0 600000 "took 20 (Response_ok (snapshot completed (Some reply) None))"
          "snapshot completed (Some reply) None" "''j1''" 5000 True "[]" "[]"]
  by (simp add: took_def snapshot_def)

section \<open>Transient not-found\<close>

text \<open>
  Claim C4. A fetch that fails with status 404, that is, one from which the transport
  throws an \<open>APIError\<close> of status 404, is answered inside the loop: the poller sleeps
  for the poll interval (or longer, never shorter) and goes on to the next loop test,
  with nothing reported and nothing rejected. For the fetch outcomes 404, 404,
  completed with result \<open>R\<close>, all three fetched before the deadline, the poll resolves
  with \<open>R\<close> and the progress callback sees the completed snapshot only. A fetch that
  fails with any other status rejects the poll at once, at the moment the fetch
  returns, with the error of the transport; so does a fetch that fails without a
  status. The transport gives a response that is not ok the status of the response,
  whatever its body, but for the body \<^verbatim>\<open>null\<close>: there it throws the
  \<^verbatim>\<open>TypeError\<close> of the property read, a failure without a status.
\<close>

theorem not_found_is_retried:
  "(now - st < M \<and> getChatJob (exchange p) = Inl (Thrown_APIError e) \<and> status_err e = 404 \<longrightarrow>
      poll_loop j M I cb st now seen (p # ps)
        = poll_loop j M I cb st (now + int (latency p) + sleep I (lateness p)) seen ps
      \<and> I \<le> sleep I (lateness p))
   \<and> getChatJob (Response_not_ok s Unparseable)
        = Inl (Thrown_APIError \<lparr>message_err = ''API error: '' @ decimal s,
                                 status_err = s, details = Error_body Missing\<rparr>)
   \<and> getChatJob (Response_not_ok s (Value_body d))
        = Inl (Thrown_APIError \<lparr>message_err = detail_or d (''API error: '' @ decimal s),
                                 status_err = s, details = Error_body d\<rparr>)
   \<and> getChatJob (Response_not_ok s (Null_body m)) = Inl (Thrown_other (Some m))
   \<and> (status job = completed \<and> result job = Some R
       \<and> getChatJob xa = Inl (Thrown_APIError ea) \<and> status_err ea = 404
       \<and> getChatJob xb = Inl (Thrown_APIError eb) \<and> status_err eb = 404
       \<and> 0 < maxWaitTime_of opts
       \<and> int ta + sleep (pollInterval_of opts) sa < maxWaitTime_of opts
       \<and> int ta + sleep (pollInterval_of opts) sa + int tb + sleep (pollInterval_of opts) sb
            < maxWaitTime_of opts \<longrightarrow>
      waitForChatJob j opts st
        (\<lparr>latency = ta, exchange = xa, lateness = sa\<rparr>
         # \<lparr>latency = tb, exchange = xb, lateness = sb\<rparr>
         # \<lparr>latency = tc, exchange = Response_ok job, lateness = sc\<rparr> # rest)
        = \<lparr>outcome = Resolved R,
           settled_at = st + int ta + sleep (pollInterval_of opts) sa
                           + int tb + sleep (pollInterval_of opts) sb + int tc,
           reported = (if onProgress opts then [job] else [])\<rparr>)
   \<and> (now - st < M \<and> getChatJob (exchange p) = Inl (Thrown_APIError e) \<and> status_err e \<noteq> 404 \<longrightarrow>
      poll_loop j M I cb st now seen (p # ps)
        = \<lparr>outcome = Rejected (Thrown_APIError e),
           settled_at = now + int (latency p), reported = seen\<rparr>)
   \<and> (now - st < M \<and> getChatJob (exchange p) = Inl (Thrown_other w) \<longrightarrow>
      poll_loop j M I cb st now seen (p # ps)
        = \<lparr>outcome = Rejected (Thrown_other w),
           settled_at = now + int (latency p), reported = seen\<rparr>)"
proof (intro conjI impI)
  assume h: "now - st < M \<and> getChatJob (exchange p) = Inl (Thrown_APIError e) \<and> status_err e = 404"
  then have "iteration j (exchange p) = Sleep"
    using iteration_thrown(1) [of "exchange p" e j] by simp
  with h show "poll_loop j M I cb st now seen (p # ps)
        = poll_loop j M I cb st (now + int (latency p) + sleep I (lateness p)) seen ps"
    using report_thrown [of "exchange p" _ cb] by (simp add: poll_loop_Sleep)
  show "I \<le> sleep I (lateness p)"
    by (simp add: sleep_def)
next
  show "getChatJob (Response_not_ok s Unparseable)
        = Inl (Thrown_APIError \<lparr>message_err = ''API error: '' @ decimal s,
                                 status_err = s, details = Error_body Missing\<rparr>)"
    and "getChatJob (Response_not_ok s (Value_body d))
        = Inl (Thrown_APIError \<lparr>message_err = detail_or d (''API error: '' @ decimal s),
                                 status_err = s, details = Error_body d\<rparr>)"
    and "getChatJob (Response_not_ok s (Null_body m)) = Inl (Thrown_other (Some m))"
    by (rule getChatJob_not_ok)+
next
  let ?M = "maxWaitTime_of opts" and ?I = "pollInterval_of opts"
  let ?p1 = "\<lparr>latency = ta, exchange = xa, lateness = sa\<rparr>"
  let ?p2 = "\<lparr>latency = tb, exchange = xb, lateness = sb\<rparr>"
  let ?p3 = "\<lparr>latency = tc, exchange = Response_ok job, lateness = sc\<rparr>"
  let ?t1 = "st + int ta + sleep ?I sa"
  let ?t2 = "?t1 + int tb + sleep ?I sb"
  assume h: "status job = completed \<and> result job = Some R
       \<and> getChatJob xa = Inl (Thrown_APIError ea) \<and> status_err ea = 404
       \<and> getChatJob xb = Inl (Thrown_APIError eb) \<and> status_err eb = 404
       \<and> 0 < ?M
       \<and> int ta + sleep ?I sa < ?M \<and> int ta + sleep ?I sa + int tb + sleep ?I sb < ?M"
  have ia: "iteration j xa = Sleep" "report (onProgress opts) xa = []"
    using h iteration_thrown(1) [of xa ea j] report_thrown [of xa _ "onProgress opts"]
    by simp_all
  have ib: "iteration j xb = Sleep" "report (onProgress opts) xb = []"
    using h iteration_thrown(1) [of xb eb j] report_thrown [of xb _ "onProgress opts"]
    by simp_all
  have s1: "poll_loop j ?M ?I (onProgress opts) st st [] (?p1 # ?p2 # ?p3 # rest)
              = poll_loop j ?M ?I (onProgress opts) st ?t1 [] (?p2 # ?p3 # rest)"
    using h ia by (simp add: poll_loop_Sleep)
  have s2: "poll_loop j ?M ?I (onProgress opts) st ?t1 [] (?p2 # ?p3 # rest)
              = poll_loop j ?M ?I (onProgress opts) st ?t2 [] (?p3 # rest)"
    using h ib by (simp add: poll_loop_Sleep)
  have s3: "poll_loop j ?M ?I (onProgress opts) st ?t2 [] (?p3 # rest)
              = \<lparr>outcome = Resolved R, settled_at = ?t2 + int tc,
                 reported = (if onProgress opts then [job] else [])\<rparr>"
    using h by (simp add: poll_loop_Return iteration_snapshot report_snapshot)
  show "waitForChatJob j opts st (?p1 # ?p2 # ?p3 # rest)
        = \<lparr>outcome = Resolved R, settled_at = ?t2 + int tc,
           reported = (if onProgress opts then [job] else [])\<rparr>"
    unfolding waitForChatJob_def s1 s2 s3 ..
next
  assume h: "now - st < M \<and> getChatJob (exchange p) = Inl (Thrown_APIError e) \<and> status_err e \<noteq> 404"
  then have "iteration j (exchange p) = Throw (Thrown_APIError e)"
    using iteration_thrown(1) [of "exchange p" e j] by simp
  with h show "poll_loop j M I cb st now seen (p # ps)
        = \<lparr>outcome = Rejected (Thrown_APIError e),
           settled_at = now + int (latency p), reported = seen\<rparr>"
    using report_thrown [of "exchange p" _ cb] by (simp add: poll_loop_Throw)
next
  assume h: "now - st < M \<and> getChatJob (exchange p) = Inl (Thrown_other w)"
  then have "iteration j (exchange p) = Throw (Thrown_other w)"
    using iteration_thrown(2) [of "exchange p" w j] by simp
  with h show "poll_loop j M I cb st now seen (p # ps)
        = \<lparr>outcome = Rejected (Thrown_other w),
           settled_at = now + int (latency p), reported = seen\<rparr>"
    using report_thrown [of "exchange p" _ cb] by (simp add: poll_loop_Throw)
qed

theorem not_found_is_retried_witness:
  "(1000::int) - 1000 < 600000
   \<and> getChatJob (exchange (took 7 (Response_not_ok 404 (Value_body (Text ''Job not found'')))))
       = Inl (Thrown_APIError \<lparr>message_err = ''Job not found'', status_err = 404,
                                details = Error_body (Text ''Job not found'')\<rparr>)
   \<and> status_err \<lparr>message_err = ''Job not found'', status_err = 404,
                  details = Error_body (Text ''Job not found'')\<rparr> = 404
   \<and> poll_loop ''j1'' 600000 5000 True 1000 1000 []
        [took 7 (Response_not_ok 404 (Value_body (Text ''Job not found'')))]
       = poll_loop ''j1'' 600000 5000 True 1000 6007 [] []
   \<and> status (snapshot completed (Some reply) None) = completed
   \<and> result (snapshot completed (Some reply) None) = Some reply
   \<and> getChatJob (Response_not_ok 404 (Value_body (Text ''Job not found'')))
       = Inl (Thrown_APIError \<lparr>message_err = ''Job not found'', status_err = 404,
                                details = Error_body (Text ''Job not found'')\<rparr>)
   \<and> getChatJob (Response_not_ok 404 Unparseable)
       = Inl (Thrown_APIError \<lparr>message_err = ''API error: 404'', status_err = 404,
                                details = Error_body Missing\<rparr>)
   \<and> status_err \<lparr>message_err = ''API error: 404'', status_err = 404,
                  details = Error_body Missing\<rparr> = 404
   \<and> 0 < maxWaitTime_of defaults
   \<and> int 30 + sleep (pollInterval_of defaults) 2 < maxWaitTime_of defaults
   \<and> int 30 + sleep (pollInterval_of defaults) 2 + int 25 + sleep (pollInterval_of defaults) 0
        < maxWaitTime_of defaults
   \<and> waitForChatJob ''j1'' defaults 1000
        [\<lparr>latency = 30, exchange = Response_not_ok 404 (Value_body (Text ''Job not found'')),
          lateness = 2\<rparr>,
         \<lparr>latency = 25, exchange = Response_not_ok 404 Unparseable, lateness = 0\<rparr>,
         \<lparr>latency = 40, exchange = Response_ok (snapshot completed (Some reply) None), lateness = 0\<rparr>]
       = \<lparr>outcome = Resolved reply, settled_at = 11097,
          reported = [snapshot completed (Some reply) None]\<rparr>
   \<and> getChatJob (exchange (took 7 (Response_not_ok 503 Unparseable)))
       = Inl (Thrown_APIError \<lparr>message_err = ''API error: 503'', status_err = 503,
                                details = Error_body Missing\<rparr>)
   \<and> status_err \<lparr>message_err = ''API error: 503'', status_err = 503,
                  details = Error_body Missing\<rparr> \<noteq> 404
   \<and> poll_loop ''j1'' 600000 5000 True 1000 1000 [] [took 7 (Response_not_ok 503 Unparseable)]
       = \<lparr>outcome = Rejected (Thrown_APIError
                       \<lparr>message_err = ''API error: 503'', status_err = 503,
                        details = Error_body Missing\<rparr>),
          settled_at = 1007, reported = []\<rparr>
   \<and> getChatJob (exchange (took 7 (Fetch_rejected (Some ''Failed to fetch''))))
       = Inl (Thrown_other (Some ''Failed to fetch''))
   \<and> poll_loop ''j1'' 600000 5000 True 1000 1000 [] [took 7 (Fetch_rejected (Some ''Failed to fetch''))]
       = \<lparr>outcome = Rejected (Thrown_other (Some ''Failed to fetch'')),
          settled_at = 1007, reported = []\<rparr>
   \<and> getChatJob (exchange (took 7 (Response_not_ok 404 (Null_body ''error is null''))))
       = Inl (Thrown_other (Some ''error is null''))
   \<and> poll_loop ''j1'' 600000 5000 True 1000 1000 []
        [took 7 (Response_not_ok 404 (Null_body ''error is null''))]
       = \<lparr>outcome = Rejected (Thrown_other (Some ''error is null'')),
          settled_at = 1007, reported = []\<rparr>"
proof -
  let ?nf = "\<lparr>message_err = ''Job not found'', status_err = 404,
              details = Error_body (Text ''Job not found'')\<rparr>"
  let ?ne = "\<lparr>message_err = ''API error: 404'', status_err = 404, details = Error_body Missing\<rparr>"
  let ?un = "\<lparr>message_err = ''API error: 503'', status_err = 503, details = Error_body Missing\<rparr>"
  have t: "(1000::int) - 1000 < 600000"
    by simp
  have g1: "getChatJob (Response_not_ok 404 (Value_body (Text ''Job not found''))) = Inl (Thrown_APIError ?nf)"
    and g2: "getChatJob (Response_not_ok 404 Unparseable) = Inl (Thrown_APIError ?ne)"
    and g3: "getChatJob (Response_not_ok 503 Unparseable) = Inl (Thrown_APIError ?un)"
    and g4: "getChatJob (Fetch_rejected (Some ''Failed to fetch'')) = Inl (Thrown_other (Some ''Failed to fetch''))"
    and g5: "getChatJob (Response_not_ok 404 (Null_body ''error is null'')) = Inl (Thrown_other (Some ''error is null''))"
    by (simp_all add: getChatJob_def fetchAPI_def digit_char_def)
  have times: "0 < maxWaitTime_of defaults"
    "int 30 + sleep (pollInterval_of defaults) 2 < maxWaitTime_of defaults"
    "int 30 + sleep (pollInterval_of defaults) 2 + int 25 + sleep (pollInterval_of defaults) 0
        < maxWaitTime_of defaults"
    by (simp_all add: sleep_def)
  have job: "status (snapshot completed (Some reply) None) = completed"
    "result (snapshot completed (Some reply) None) = Some reply"
    by (simp_all add: snapshot_def)
  note a = not_found_is_retried [where now = 1000 and st = 1000 and M = 600000 and j = "''j1''"
             and I = 5000 and cb = True and seen = "[]" and ps = "[]" and e = ?nf
             and p = "took 7 (Response_not_ok 404 (Value_body (Text ''Job not found'')))"
             and job = "snapshot completed (Some reply) None" and R = reply and opts = defaults
             and xa = "Response_not_ok 404 (Value_body (Text ''Job not found''))" and ea = ?nf
             and xb = "Response_not_ok 404 Unparseable" and eb = ?ne
             and ta = 30 and sa = 2 and tb = 25 and sb = 0 and tc = 40 and sc = 0 and rest = "[]"]
  note b = not_found_is_retried [where now = 1000 and st = 1000 and M = 600000 and j = "''j1''"
             and I = 5000 and cb = True and seen = "[]" and ps = "[]" and e = ?un
             and p = "took 7 (Response_not_ok 503 Unparseable)"]
  note c = not_found_is_retried [where now = 1000 and st = 1000 and M = 600000 and j = "''j1''"
             and I = 5000 and cb = True and seen = "[]" and ps = "[]"
             and w = "Some ''Failed to fetch''"
             and p = "took 7 (Fetch_rejected (Some ''Failed to fetch''))"]
  note d = not_found_is_retried [where now = 1000 and st = 1000 and M = 600000 and j = "''j1''"
             and I = 5000 and cb = True and seen = "[]" and ps = "[]"
             and w = "Some ''error is null''"
             and p = "took 7 (Response_not_ok 404 (Null_body ''error is null''))"]
  from a t g1 have r1: "poll_loop ''j1'' 600000 5000 True 1000 1000 []
        [took 7 (Response_not_ok 404 (Value_body (Text ''Job not found'')))]
       = poll_loop ''j1'' 600000 5000 True 1000 6007 [] []"
    by (simp add: took_def sleep_def)
  from a job g1 g2 times have r2: "waitForChatJob ''j1'' defaults 1000
        [\<lparr>latency = 30, exchange = Response_not_ok 404 (Value_body (Text ''Job not found'')),
          lateness = 2\<rparr>,
         \<lparr>latency = 25, exchange = Response_not_ok 404 Unparseable, lateness = 0\<rparr>,
         \<lparr>latency = 40, exchange = Response_ok (snapshot completed (Some reply) None), lateness = 0\<rparr>]
       = \<lparr>outcome = Resolved reply, settled_at = 11097,
          reported = [snapshot completed (Some reply) None]\<rparr>"
    by (simp add: sleep_def)
  from b t g3 have r3: "poll_loop ''j1'' 600000 5000 True 1000 1000 [] [took 7 (Response_not_ok 503 Unparseable)]
       = \<lparr>outcome = Rejected (Thrown_APIError ?un), settled_at = 1007, reported = []\<rparr>"
    by (simp add: took_def)
  from c t g4 have r4: "poll_loop ''j1'' 600000 5000 True 1000 1000 []
        [took 7 (Fetch_rejected (Some ''Failed to fetch''))]
       = \<lparr>outcome = Rejected (Thrown_other (Some ''Failed to fetch'')),
          settled_at = 1007, reported = []\<rparr>"
    by (simp add: took_def)
  from d t g5 have r5: "poll_loop ''j1'' 600000 5000 True 1000 1000 []
        [took 7 (Response_not_ok 404 (Null_body ''error is null''))]
       = \<lparr>outcome = Rejected (Thrown_other (Some ''error is null'')),
          settled_at = 1007, reported = []\<rparr>"
    by (simp add: took_def)
  from t g1 g2 g3 g4 g5 times job r1 r2 r3 r4 r5 show ?thesis
    by (simp add: took_def)
qed

section \<open>The progress callback\<close>

text \<open>
  Claim C2 says that the callback runs for the snapshots that are not terminal only:
  twice for the snapshots pending, processing, completed, and not at all when the
  first snapshot is terminal. The loop calls it before it reads the status, so the
  completed snapshot is reported too: three calls in the first case, one in the
  second.
\<close>

theorem progress_on_terminal_counterexample:
  "length (reported (waitForChatJob ''j1'' defaults 0
      [took 0 (Response_ok (snapshot pending None None)),
       took 0 (Response_ok (snapshot processing None None)),
       took 0 (Response_ok (snapshot completed (Some reply) None))])) \<noteq> 2
   \<and> length (reported (waitForChatJob ''j1'' defaults 0
      [took 0 (Response_ok (snapshot completed (Some reply) None))])) \<noteq> 0"
  by (simp add: waitForChatJob_def poll_loop_Sleep poll_loop_Return iteration_snapshot
        report_snapshot took_def snapshot_def sleep_def)

text \<open>
  Claim C2, amended. With a callback supplied, it is invoked exactly once for every
  snapshot that a fetch produces, terminal or not, before the status is read; for a
  terminal snapshot it is the last invocation, and the poll settles in that
  iteration. For the snapshots pending, processing, completed with result \<open>R\<close>, all
  fetched before the deadline, it is invoked three times, on these snapshots in this
  order, and the poll resolves with \<open>R\<close>; when the first snapshot is terminal it is
  invoked once. Whatever the script holds after the settling fetch is not read.
  Without a callback nothing is reported.
\<close>

theorem progress_on_every_snapshot:
  "(now - st < M \<and> exchange p = Response_ok job \<longrightarrow>
      (\<exists>tail. reported (poll_loop j M I True st now seen (p # ps)) = seen @ [job] @ tail)
      \<and> (status job = completed \<or> status job = failed \<longrightarrow>
           reported (poll_loop j M I True st now seen (p # ps)) = seen @ [job]
           \<and> outcome (poll_loop j M I True st now seen (p # ps)) \<noteq> Unsettled))
   \<and> (status ja = pending \<and> status jb = processing
       \<and> status jc = completed \<and> result jc = Some R
       \<and> 0 < maxWaitTime_of opts
       \<and> int ta + sleep (pollInterval_of opts) sa < maxWaitTime_of opts
       \<and> int ta + sleep (pollInterval_of opts) sa + int tb + sleep (pollInterval_of opts) sb
            < maxWaitTime_of opts \<longrightarrow>
      waitForChatJob j opts st
        (\<lparr>latency = ta, exchange = Response_ok ja, lateness = sa\<rparr>
         # \<lparr>latency = tb, exchange = Response_ok jb, lateness = sb\<rparr>
         # \<lparr>latency = tc, exchange = Response_ok jc, lateness = sc\<rparr> # rest)
        = \<lparr>outcome = Resolved R,
           settled_at = st + int ta + sleep (pollInterval_of opts) sa
                           + int tb + sleep (pollInterval_of opts) sb + int tc,
           reported = (if onProgress opts then [ja, jb, jc] else [])\<rparr>)
   \<and> ((status ja = completed \<or> status ja = failed) \<and> 0 < maxWaitTime_of opts \<longrightarrow>
      reported (waitForChatJob j opts st
                 (\<lparr>latency = ta, exchange = Response_ok ja, lateness = sa\<rparr> # rest))
        = (if onProgress opts then [ja] else [])
      \<and> outcome (waitForChatJob j opts st
                 (\<lparr>latency = ta, exchange = Response_ok ja, lateness = sa\<rparr> # rest)) \<noteq> Unsettled)"
proof (intro conjI impI)
  assume h: "now - st < M \<and> exchange p = Response_ok job"
  show "\<exists>tail. reported (poll_loop j M I True st now seen (p # ps)) = seen @ [job] @ tail"
  proof (cases "iteration j (exchange p)")
    case (Return r)
    with h show ?thesis by (simp add: poll_loop_Return report_snapshot)
  next
    case (Throw e)
    with h show ?thesis by (simp add: poll_loop_Throw report_snapshot)
  next
    case Sleep
    obtain tail where
      "reported (poll_loop j M I True st (now + int (latency p) + sleep I (lateness p))
                  (seen @ [job]) ps) = (seen @ [job]) @ tail"
      using reported_extends by blast
    with h Sleep show ?thesis by (simp add: poll_loop_Sleep report_snapshot)
  qed
next
  assume h: "now - st < M \<and> exchange p = Response_ok job"
    and t: "status job = completed \<or> status job = failed"
  from t h have "iteration j (exchange p) \<noteq> Sleep"
    by (auto simp: iteration_snapshot split: option.splits)
  then show "reported (poll_loop j M I True st now seen (p # ps)) = seen @ [job]"
    using h by (cases "iteration j (exchange p)")
               (simp_all add: poll_loop_Return poll_loop_Throw report_snapshot)
  from \<open>iteration j (exchange p) \<noteq> Sleep\<close>
  show "outcome (poll_loop j M I True st now seen (p # ps)) \<noteq> Unsettled"
    using h by (cases "iteration j (exchange p)")
               (simp_all add: poll_loop_Return poll_loop_Throw)
next
  let ?M = "maxWaitTime_of opts" and ?I = "pollInterval_of opts" and ?cb = "onProgress opts"
  let ?pa = "\<lparr>latency = ta, exchange = Response_ok ja, lateness = sa\<rparr>"
  let ?pb = "\<lparr>latency = tb, exchange = Response_ok jb, lateness = sb\<rparr>"
  let ?pc = "\<lparr>latency = tc, exchange = Response_ok jc, lateness = sc\<rparr>"
  let ?t1 = "st + int ta + sleep ?I sa"
  let ?t2 = "?t1 + int tb + sleep ?I sb"
  assume h: "status ja = pending \<and> status jb = processing
       \<and> status jc = completed \<and> result jc = Some R \<and> 0 < ?M
       \<and> int ta + sleep ?I sa < ?M \<and> int ta + sleep ?I sa + int tb + sleep ?I sb < ?M"
  have s1: "poll_loop j ?M ?I ?cb st st [] (?pa # ?pb # ?pc # rest)
              = poll_loop j ?M ?I ?cb st ?t1 (if ?cb then [ja] else []) (?pb # ?pc # rest)"
    using h by (simp add: poll_loop_Sleep iteration_snapshot report_snapshot)
  have s2: "poll_loop j ?M ?I ?cb st ?t1 (if ?cb then [ja] else []) (?pb # ?pc # rest)
              = poll_loop j ?M ?I ?cb st ?t2 (if ?cb then [ja, jb] else []) (?pc # rest)"
    using h by (simp add: poll_loop_Sleep iteration_snapshot report_snapshot)
  have s3: "poll_loop j ?M ?I ?cb st ?t2 (if ?cb then [ja, jb] else []) (?pc # rest)
              = \<lparr>outcome = Resolved R, settled_at = ?t2 + int tc,
                 reported = (if ?cb then [ja, jb, jc] else [])\<rparr>"
    using h by (simp add: poll_loop_Return iteration_snapshot report_snapshot)
  show "waitForChatJob j opts st (?pa # ?pb # ?pc # rest)
        = \<lparr>outcome = Resolved R, settled_at = ?t2 + int tc,
           reported = (if ?cb then [ja, jb, jc] else [])\<rparr>"
    unfolding waitForChatJob_def s1 s2 s3 ..
next
  let ?pa = "\<lparr>latency = ta, exchange = Response_ok ja, lateness = sa\<rparr>"
  assume h: "(status ja = completed \<or> status ja = failed) \<and> 0 < maxWaitTime_of opts"
  then have ns: "iteration j (exchange ?pa) \<noteq> Sleep"
    by (auto simp: iteration_snapshot split: option.splits)
  then show "reported (waitForChatJob j opts st (?pa # rest)) = (if onProgress opts then [ja] else [])"
    using h unfolding waitForChatJob_def
    by (cases "iteration j (exchange ?pa)")
       (simp_all add: poll_loop_Return poll_loop_Throw report_snapshot)
  from ns show "outcome (waitForChatJob j opts st (?pa # rest)) \<noteq> Unsettled"
    using h unfolding waitForChatJob_def
    by (cases "iteration j (exchange ?pa)")
       (simp_all add: poll_loop_Return poll_loop_Throw)
qed

theorem progress_on_every_snapshot_witness:
  "(0::int) - 0 < 600000
   \<and> exchange (took 15 (Response_ok (snapshot failed None None))) = Response_ok (snapshot failed None None)
   \<and> status (snapshot failed None None) = failed
   \<and> reported (poll_loop ''j1'' 600000 5000 True 0 0 [] [took 15 (Response_ok (snapshot failed None None))])
       = [] @ [snapshot failed None None]
   \<and> status (snapshot pending None None) = pending
   \<and> status (snapshot processing None None) = processing
   \<and> status (snapshot completed (Some reply) None) = completed
   \<and> result (snapshot completed (Some reply) None) = Some reply
   \<and> 0 < maxWaitTime_of defaults
   \<and> int 20 + sleep (pollInterval_of defaults) 3 < maxWaitTime_of defaults
   \<and> int 20 + sleep (pollInterval_of defaults) 3 + int 20 + sleep (pollInterval_of defaults) 0
        < maxWaitTime_of defaults
   \<and> waitForChatJob ''j1'' defaults 0
        [\<lparr>latency = 20, exchange = Response_ok (snapshot pending None None), lateness = 3\<rparr>,
         \<lparr>latency = 20, exchange = Response_ok (snapshot processing None None), lateness = 0\<rparr>,
         \<lparr>latency = 20, exchange = Response_ok (snapshot completed (Some reply) None), lateness = 0\<rparr>]
       = \<lparr>outcome = Resolved reply, settled_at = 10063,
          reported = [snapshot pending None None, snapshot processing None None,
                      snapshot completed (Some reply) None]\<rparr>
   \<and> reported (waitForChatJob ''j1'' defaults 0
                 [\<lparr>latency = 20, exchange = Response_ok (snapshot failed None None), lateness = 3\<rparr>])
       = [snapshot failed None None]"
  using progress_on_every_snapshot [where j = "''j1''" and I = 5000 and seen = "[]" and ps = "[]"
          and now = 0 and st = 0 and M = 600000
          and p = "took 15 (Response_ok (snapshot failed None None))" and job = "snapshot failed None None"
          and ja = "snapshot pending None None" and jb = "snapshot processing None None"
          and jc = "snapshot completed (Some reply) None" and R = reply and opts = defaults
          and ta = 20 and sa = 3 and tb = 20 and sb = 0 and tc = 20 and sc = 0 and rest = "[]"]
        progress_on_every_snapshot [where j = "''j1''" and st = 0 and opts = defaults
          and ja = "snapshot failed None None" and ta = 20 and sa = 3 and rest = "[]"]
  by (simp add: took_def snapshot_def sleep_def)

section \<open>The deadline\<close>

lemma poll_loop_settles_by:
  assumes "\<forall>p\<in>set ps. latency p \<le> d \<and> lateness p \<le> l"
    and "outcome (poll_loop j M I cb st now seen ps) \<noteq> Unsettled"
  shows "settled_at (poll_loop j M I cb st now seen ps)
           \<le> max now (st + M - 1 + int d + max 0 I + int l)"
  using assms
proof (induction ps arbitrary: now seen)
  case Nil
  then show ?case by (simp split: if_splits)
next
  case (Cons p ps)
  show ?case
  proof (cases "now - st < M")
    case False
    then show ?thesis by (simp add: poll_loop_deadline)
  next
    case True
    from Cons.prems have lat: "latency p \<le> d" and late: "lateness p \<le> l"
      and rest: "\<forall>p\<in>set ps. latency p \<le> d \<and> lateness p \<le> l" by simp_all
    show ?thesis
    proof (cases "iteration j (exchange p)")
      case (Return r)
      with True lat show ?thesis by (simp add: poll_loop_Return)
    next
      case (Throw e)
      with True lat show ?thesis by (simp add: poll_loop_Throw)
    next
      case Sleep
      let ?now' = "now + int (latency p) + sleep I (lateness p)"
      let ?seen' = "seen @ report cb (exchange p)"
      have eq: "poll_loop j M I cb st now seen (p # ps) = poll_loop j M I cb st ?now' ?seen' ps"
        using True Sleep by (simp add: poll_loop_Sleep)
      have "outcome (poll_loop j M I cb st ?now' ?seen' ps) \<noteq> Unsettled"
        using Cons.prems(2) eq by simp
      from Cons.IH [OF rest this]
      have "settled_at (poll_loop j M I cb st ?now' ?seen' ps)
              \<le> max ?now' (st + M - 1 + int d + max 0 I + int l)" .
      moreover have "?now' \<le> st + M - 1 + int d + max 0 I + int l"
        using True lat late by (simp add: sleep_def)
      ultimately show ?thesis using eq by simp
    qed
  qed
qed

lemma poll_loop_result_by:
  assumes "\<forall>p\<in>set ps. latency p \<le> d"
    and "outcome (poll_loop j M I cb st now seen ps) \<noteq> Unsettled"
    and "outcome (poll_loop j M I cb st now seen ps) \<noteq> Rejected (timeout_error j M)"
  shows "settled_at (poll_loop j M I cb st now seen ps) - st < M + int d"
  using assms
proof (induction ps arbitrary: now seen)
  case Nil
  then show ?case by (simp split: if_splits)
next
  case (Cons p ps)
  show ?case
  proof (cases "now - st < M")
    case False
    with Cons.prems show ?thesis by (simp add: poll_loop_deadline)
  next
    case True
    from Cons.prems have lat: "latency p \<le> d"
      and rest: "\<forall>p\<in>set ps. latency p \<le> d" by simp_all
    show ?thesis
    proof (cases "iteration j (exchange p)")
      case (Return r)
      with True lat show ?thesis by (simp add: poll_loop_Return)
    next
      case (Throw e)
      with True lat show ?thesis by (simp add: poll_loop_Throw)
    next
      case Sleep
      let ?now' = "now + int (latency p) + sleep I (lateness p)"
      let ?seen' = "seen @ report cb (exchange p)"
      have eq: "poll_loop j M I cb st now seen (p # ps) = poll_loop j M I cb st ?now' ?seen' ps"
        using True Sleep by (simp add: poll_loop_Sleep)
      show ?thesis
        using Cons.IH [OF rest, of ?now' ?seen'] Cons.prems(2,3) eq by simp
    qed
  qed
qed

text \<open>
  Claim C5 bounds the time to settle by the maximal wait plus one poll interval and
  excludes a result after the deadline. The loop tests the deadline only before a
  fetch and a fetch has no limit of its own: with a maximal wait of 1000 ms and an
  interval of 100 ms, a first fetch that takes 5000 ms and brings a completed job
  resolves the poll with the result, 5000 ms after the start.
\<close>

theorem result_after_deadline_counterexample:
  "outcome (waitForChatJob ''j1'' \<lparr>maxWaitTime = Some 1000, pollInterval = Some 100, onProgress = True\<rparr> 0
              [took 5000 (Response_ok (snapshot completed (Some reply) None))]) = Resolved reply
   \<and> \<not> settled_at (waitForChatJob ''j1''
              \<lparr>maxWaitTime = Some 1000, pollInterval = Some 100, onProgress = True\<rparr> 0
              [took 5000 (Response_ok (snapshot completed (Some reply) None))]) - 0 \<le> 1000 + 100"
  by (simp add: waitForChatJob_def maxWaitTime_of_def pollInterval_of_def poll_loop_Return
        iteration_snapshot took_def snapshot_def)

text \<open>
  Claim C5, amended. Let every fetch take at most \<open>d\<close> ms and every timer fire at most
  \<open>l\<close> ms late, and let the poll settle. Then it settles less than
  \<open>maxWaitTime + d + pollInterval + l\<close> ms after its start (at its start, when the
  maximal wait is negative), hence within \<open>maxWaitTime + pollInterval\<close> when fetches
  take no time and timers are exact. Every settlement other than the timeout, and so
  every result, comes less than \<open>maxWaitTime + d\<close> ms after the start: from a fetch that
  began before the deadline. The timeout is the status-504 error ``Chat job polling
  timeout'' with the job id and the maximal wait as details, and a loop test that finds
  the deadline passed rejects with it. The maximal wait and the interval are the
  values the loop works with: an option that is absent or \<open>0\<close> gives the default.
  With a positive interval the poll does settle, after at most as many fetches as
  intervals cover the maximal wait.
\<close>

theorem settles_by_deadline_and_fetch:
  assumes "\<forall>p\<in>set ps. latency p \<le> d \<and> lateness p \<le> l"
    and "outcome (waitForChatJob j opts st ps) \<noteq> Unsettled"
  shows
    "settled_at (waitForChatJob j opts st ps) - st
        < max 1 (maxWaitTime_of opts + int d + max 0 (pollInterval_of opts) + int l)
     \<and> (outcome (waitForChatJob j opts st ps) \<noteq> Rejected (timeout_error j (maxWaitTime_of opts)) \<longrightarrow>
          settled_at (waitForChatJob j opts st ps) - st < maxWaitTime_of opts + int d)
     \<and> (\<forall>r. outcome (waitForChatJob j opts st ps) = Resolved r \<longrightarrow>
          settled_at (waitForChatJob j opts st ps) - st < maxWaitTime_of opts + int d)
     \<and> timeout_error j (maxWaitTime_of opts)
          = Thrown_APIError \<lparr>message_err = ''Chat job polling timeout'', status_err = 504,
                              details = Wait_exceeded j (maxWaitTime_of opts)\<rparr>
     \<and> (\<forall>now seen qs. \<not> now - st < maxWaitTime_of opts \<longrightarrow>
          poll_loop j (maxWaitTime_of opts) (pollInterval_of opts) (onProgress opts) st now seen qs
            = \<lparr>outcome = Rejected (timeout_error j (maxWaitTime_of opts)),
               settled_at = now, reported = seen\<rparr>)
     \<and> (\<forall>qs. 0 < pollInterval_of opts
            \<and> maxWaitTime_of opts \<le> int (length qs) * pollInterval_of opts \<longrightarrow>
          outcome (waitForChatJob j opts st qs) \<noteq> Unsettled)"
proof (intro conjI allI impI)
  let ?M = "maxWaitTime_of opts" and ?I = "pollInterval_of opts"
  let ?W = "poll_loop j ?M ?I (onProgress opts) st st [] ps"
  have W: "waitForChatJob j opts st ps = ?W"
    by (simp add: waitForChatJob_def)
  have "settled_at ?W \<le> max st (st + ?M - 1 + int d + max 0 ?I + int l)"
    using assms unfolding W by (rule poll_loop_settles_by)
  then show "settled_at (waitForChatJob j opts st ps) - st < max 1 (?M + int d + max 0 ?I + int l)"
    unfolding W by linarith
  have lat: "\<forall>p\<in>set ps. latency p \<le> d"
    using assms(1) by simp
  {
    assume "outcome (waitForChatJob j opts st ps) \<noteq> Rejected (timeout_error j ?M)"
    then show "settled_at (waitForChatJob j opts st ps) - st < ?M + int d"
      using poll_loop_result_by [OF lat, of j ?M ?I "onProgress opts" st st "[]"] assms(2)
      unfolding W by simp
  }
  {
    fix r assume "outcome (waitForChatJob j opts st ps) = Resolved r"
    then show "settled_at (waitForChatJob j opts st ps) - st < ?M + int d"
      using poll_loop_result_by [OF lat, of j ?M ?I "onProgress opts" st st "[]"]
      unfolding W by simp
  }
  show "timeout_error j ?M
          = Thrown_APIError \<lparr>message_err = ''Chat job polling timeout'', status_err = 504,
                              details = Wait_exceeded j ?M\<rparr>"
    by (simp add: timeout_error_def)
  {
    fix now seen qs assume "\<not> now - st < ?M"
    then show "poll_loop j ?M ?I (onProgress opts) st now seen qs
            = \<lparr>outcome = Rejected (timeout_error j ?M), settled_at = now, reported = seen\<rparr>"
      by (rule poll_loop_deadline)
  }
  {
    fix qs :: "Poll list" assume "0 < ?I \<and> ?M \<le> int (length qs) * ?I"
    then show "outcome (waitForChatJob j opts st qs) \<noteq> Unsettled"
      unfolding waitForChatJob_def by (intro poll_loop_settles) simp_all
  }
qed

theorem settles_by_deadline_and_fetch_witness:
  "latency (took 0 (Response_ok (snapshot pending None None))) \<le> 0
   \<and> lateness (took 0 (Response_ok (snapshot pending None None))) \<le> 0
   \<and> latency (took 0 (Response_not_ok 404 Unparseable)) \<le> 0
   \<and> lateness (took 0 (Response_not_ok 404 Unparseable)) \<le> 0
   \<and> latency (took 0 (Response_ok (snapshot processing None None))) \<le> 0
   \<and> lateness (took 0 (Response_ok (snapshot processing None None))) \<le> 0
   \<and> outcome (waitForChatJob ''j1'' \<lparr>maxWaitTime = Some 250, pollInterval = Some 100, onProgress = True\<rparr> 0
        [took 0 (Response_ok (snapshot pending None None)),
         took 0 (Response_not_ok 404 Unparseable),
         took 0 (Response_ok (snapshot processing None None))]) \<noteq> Unsettled
   \<and> waitForChatJob ''j1'' \<lparr>maxWaitTime = Some 250, pollInterval = Some 100, onProgress = True\<rparr> 0
        [took 0 (Response_ok (snapshot pending None None)),
         took 0 (Response_not_ok 404 Unparseable),
         took 0 (Response_ok (snapshot processing None None))]
       = \<lparr>outcome = Rejected (Thrown_APIError
                        \<lparr>message_err = ''Chat job polling timeout'', status_err = 504,
                         details = Wait_exceeded ''j1'' 250\<rparr>),
          settled_at = 300,
          reported = [snapshot pending None None, snapshot processing None None]\<rparr>
   \<and> settled_at (waitForChatJob ''j1'' \<lparr>maxWaitTime = Some 250, pollInterval = Some 100, onProgress = True\<rparr> 0
        [took 0 (Response_ok (snapshot pending None None)),
         took 0 (Response_not_ok 404 Unparseable),
         took 0 (Response_ok (snapshot processing None None))]) - 0
       < max 1 (maxWaitTime_of \<lparr>maxWaitTime = Some 250, pollInterval = Some 100, onProgress = True\<rparr>
                + int 0
                + max 0 (pollInterval_of \<lparr>maxWaitTime = Some 250, pollInterval = Some 100, onProgress = True\<rparr>)
                + int 0)
   \<and> 0 < pollInterval_of \<lparr>maxWaitTime = Some 250, pollInterval = Some 100, onProgress = True\<rparr>
   \<and> maxWaitTime_of \<lparr>maxWaitTime = Some 250, pollInterval = Some 100, onProgress = True\<rparr>
         \<le> int (length [took 0 (Response_ok (snapshot pending None None)),
                          took 0 (Response_not_ok 404 Unparseable),
                          took 0 (Response_ok (snapshot processing None None))])
             * pollInterval_of \<lparr>maxWaitTime = Some 250, pollInterval = Some 100, onProgress = True\<rparr>"
proof -
  let ?opts = "\<lparr>maxWaitTime = Some 250, pollInterval = Some 100, onProgress = True\<rparr>"
  let ?ps = "[took 0 (Response_ok (snapshot pending None None)),
              took 0 (Response_not_ok 404 Unparseable),
              took 0 (Response_ok (snapshot processing None None))]"
  have run: "waitForChatJob ''j1'' ?opts 0 ?ps
       = \<lparr>outcome = Rejected (Thrown_APIError
                        \<lparr>message_err = ''Chat job polling timeout'', status_err = 504,
                         details = Wait_exceeded ''j1'' 250\<rparr>),
          settled_at = 300,
          reported = [snapshot pending None None, snapshot processing None None]\<rparr>"
    by (simp add: waitForChatJob_def maxWaitTime_of_def pollInterval_of_def poll_loop_Sleep
          iteration_snapshot iteration_not_ok report_snapshot report_failure timeout_error_def
          took_def snapshot_def sleep_def)
  have bounded: "\<forall>p\<in>set ?ps. latency p \<le> 0 \<and> lateness p \<le> 0"
    by (simp add: took_def)
  have settled: "outcome (waitForChatJob ''j1'' ?opts 0 ?ps) \<noteq> Unsettled"
    by (simp add: run)
  from settles_by_deadline_and_fetch [OF bounded settled]
  have "settled_at (waitForChatJob ''j1'' ?opts 0 ?ps) - 0
          < max 1 (maxWaitTime_of ?opts + int 0 + max 0 (pollInterval_of ?opts) + int 0)"
    by blast
  moreover have "latency (took 0 (Response_ok (snapshot pending None None))) \<le> 0"
    "lateness (took 0 (Response_ok (snapshot pending None None))) \<le> 0"
    "latency (took 0 (Response_not_ok 404 Unparseable)) \<le> 0"
    "lateness (took 0 (Response_not_ok 404 Unparseable)) \<le> 0"
    "latency (took 0 (Response_ok (snapshot processing None None))) \<le> 0"
    "lateness (took 0 (Response_ok (snapshot processing None None))) \<le> 0"
    by (simp_all add: took_def)
  moreover have "0 < pollInterval_of ?opts"
    "maxWaitTime_of ?opts \<le> int (length ?ps) * pollInterval_of ?opts"
    by (simp_all add: maxWaitTime_of_def pollInterval_of_def)
  ultimately show ?thesis using run settled by blast
qed

section \<open>Facts about the chat page\<close>

lemma deduplicate_filter:
  "deduplicate prev incoming
     = prev @ filter (\<lambda>x. chunk_id x \<notin> chunk_id ` set prev) incoming"
  by (simp add: deduplicate_def)

lemma on_response_sources:
  "sources_st (on_response r s) = deduplicate (sources_st s) (sources r)"
  by (cases "sources r") (simp_all add: on_response_def Let_def deduplicate_def split: option.splits)

lemma on_response_messages:
  "messages (on_response r s) = messages s @ [\<lparr>role = assistant, content = message r\<rparr>]"
  by (simp add: on_response_def Let_def split: option.splits)

lemma on_response_plan:
  "currentPlan (on_response r s) = (case plan r of None \<Rightarrow> currentPlan s | Some p \<Rightarrow> Some p)"
  by (simp add: on_response_def Let_def split: option.splits)

lemma on_response_id:
  "conversationId (on_response r s)
     = (if conversation_id r = [] then conversationId s else Some (conversation_id r))"
  by (simp add: on_response_def Let_def split: option.splits)

lemma on_response_rest:
  "isLoading (on_response r s) = isLoading s"
  "initialGoalProcessed (on_response r s) = initialGoalProcessed s"
  "isHistoryOpen (on_response r s) = isHistoryOpen s"
  by (simp_all add: on_response_def Let_def split: option.splits)

lemma on_response_more: "Page.more (on_response r s) = Page.more s"
  by (simp add: on_response_def Let_def split: option.splits)

lemma on_catch_eq:
  "on_finally (on_catch e s)
     = s\<lparr>messages := messages s @
            [\<lparr>role = assistant,
              content = or_else (message_of e)
                ''Sorry, I encountered an error processing your request. Please try again.''\<rparr>],
         isLoading := False\<rparr>"
  by (simp add: on_catch_def on_finally_def Let_def)

lemma submit_and_wait_snapshot:
  "submit_and_wait (Response_ok sub) st (\<lparr>latency = t, exchange = Response_ok job, lateness = l\<rparr> # ps)
     = (case iteration (job_id sub) (Response_ok job) of
          Return r \<Rightarrow> Resolved r
        | Throw e \<Rightarrow> Rejected e
        | Sleep \<Rightarrow> outcome (poll_loop (job_id sub) 600000 5000 True st
                              (st + int t + sleep 5000 l) [job] ps))"
  by (simp add: submit_and_wait_def sendChatMessage_def fetchAPI_def waitForChatJob_def
        maxWaitTime_of_def pollInterval_of_def Let_def report_snapshot split: Step.splits)

lemma submit_and_wait_settles:
  assumes "120 \<le> length script"
  shows "submit_and_wait x st script \<noteq> Unsettled"
proof (cases "sendChatMessage x")
  case (Inl e)
  then show ?thesis by (simp add: submit_and_wait_def)
next
  case (Inr sub)
  have "(600000::int) - (st - st) \<le> int (length script) * 5000"
    using assms by simp
  then have "outcome (poll_loop (job_id sub) 600000 5000 True st st [] script) \<noteq> Unsettled"
    by (intro poll_loop_settles) simp_all
  with Inr show ?thesis
    by (simp add: submit_and_wait_def waitForChatJob_def maxWaitTime_of_def pollInterval_of_def)
qed

section \<open>Deduplication of sources\<close>

text \<open>
  Claim C9. When a turn resolves, the sources of the page become the sources it had,
  unchanged and in place, followed by those incoming sources whose \<open>chunk_id\<close> none of
  them has, in the order they came. An incoming source whose \<open>chunk_id\<close> an existing
  source has is skipped: the outcome is as if it had not been sent, and the existing
  entry keeps its content. A source whose \<open>chunk_id\<close> is new is appended after the
  existing entries. If every incoming \<open>chunk_id\<close> is present already, the list is
  left as it was.
\<close>

theorem sources_first_write_wins:
  "sources_st (send_settle (Resolved r) s)
     = sources_st s @ filter (\<lambda>x. chunk_id x \<notin> chunk_id ` set (sources_st s)) (sources r)
   \<and> (chunk_id x \<in> chunk_id ` set prev \<longrightarrow>
        deduplicate prev (pre @ x # post) = deduplicate prev (pre @ post))
   \<and> (chunk_id x \<notin> chunk_id ` set prev \<longrightarrow>
        deduplicate prev (pre @ x # post)
          = deduplicate prev pre @ x # filter (\<lambda>y. chunk_id y \<notin> chunk_id ` set prev) post)
   \<and> take (length prev) (deduplicate prev incoming) = prev
   \<and> length prev \<le> length (deduplicate prev incoming)
   \<and> (chunk_id ` set incoming \<subseteq> chunk_id ` set prev \<longrightarrow> deduplicate prev incoming = prev)
   \<and> (chunk_id ` set (sources r) \<subseteq> chunk_id ` set (sources_st s) \<longrightarrow>
        sources_st (send_settle (Resolved r) s) = sources_st s)"
proof (intro conjI impI)
  show "sources_st (send_settle (Resolved r) s)
     = sources_st s @ filter (\<lambda>x. chunk_id x \<notin> chunk_id ` set (sources_st s)) (sources r)"
    by (simp add: on_finally_def on_response_sources deduplicate_filter)
  show "take (length prev) (deduplicate prev incoming) = prev"
    by (simp add: deduplicate_filter)
  show "length prev \<le> length (deduplicate prev incoming)"
    by (simp add: deduplicate_filter)
next
  assume "chunk_id x \<in> chunk_id ` set prev"
  then show "deduplicate prev (pre @ x # post) = deduplicate prev (pre @ post)"
    by (simp add: deduplicate_filter)
next
  assume "chunk_id x \<notin> chunk_id ` set prev"
  then show "deduplicate prev (pre @ x # post)
          = deduplicate prev pre @ x # filter (\<lambda>y. chunk_id y \<notin> chunk_id ` set prev) post"
    by (simp add: deduplicate_filter)
next
  assume "chunk_id ` set incoming \<subseteq> chunk_id ` set prev"
  then have "filter (\<lambda>x. chunk_id x \<notin> chunk_id ` set prev) incoming = []"
    by (auto simp: filter_empty_conv)
  then show "deduplicate prev incoming = prev"
    by (simp add: deduplicate_filter)
next
  assume "chunk_id ` set (sources r) \<subseteq> chunk_id ` set (sources_st s)"
  then have "filter (\<lambda>x. chunk_id x \<notin> chunk_id ` set (sources_st s)) (sources r) = []"
    by (auto simp: filter_empty_conv)
  then show "sources_st (send_settle (Resolved r) s) = sources_st s"
    by (simp add: on_finally_def on_response_sources deduplicate_filter)
qed

theorem sources_first_write_wins_witness:
  "chunk_id (citation ''c1'' ''Revised text'') \<in> chunk_id ` set [citation ''c1'' ''Root assays'']
   \<and> deduplicate [citation ''c1'' ''Root assays'']
        ([citation ''c2'' ''Soil cores''] @ citation ''c1'' ''Revised text'' # [])
       = [citation ''c1'' ''Root assays'', citation ''c2'' ''Soil cores'']
   \<and> chunk_id ` set [citation ''c1'' ''Revised text''] \<subseteq> chunk_id ` set [citation ''c1'' ''Root assays'']
   \<and> deduplicate [citation ''c1'' ''Root assays''] [citation ''c1'' ''Revised text'']
       = [citation ''c1'' ''Root assays'']
   \<and> chunk_id ` set (sources reply)
        \<subseteq> chunk_id ` set (sources_st (send_settle (Resolved reply) initial_page))
   \<and> sources_st (send_settle (Resolved reply) (send_settle (Resolved reply) initial_page))
       = sources_st (send_settle (Resolved reply) initial_page)
   \<and> sources_st (send_settle (Resolved reply) initial_page) = [citation ''c1'' ''Root assays'']"
  using sources_first_write_wins [where x = "citation ''c1'' ''Revised text''"
          and prev = "[citation ''c1'' ''Root assays'']" and pre = "[citation ''c2'' ''Soil cores'']"
          and post = "[]" and incoming = "[citation ''c1'' ''Revised text'']"
          and r = reply and s = "send_settle (Resolved reply) initial_page"]
        sources_first_write_wins [where r = reply and s = initial_page]
  by (simp add: citation_def reply_def initial_page_def deduplicate_filter)

text \<open>
  Claim C10. The incoming sources are compared with the accumulated list only, not
  with each other: two entries of one result that share a \<open>chunk_id\<close> which the
  accumulated list does not hold are both appended, and the list then holds that
  \<open>chunk_id\<close> twice, also when its \<open>chunk_id\<close>s were distinct before.
\<close>

theorem duplicates_within_one_result:
  "(chunk_id a = chunk_id b \<and> chunk_id a \<notin> chunk_id ` set prev \<longrightarrow>
      deduplicate prev [a, b] = prev @ [a, b]
      \<and> \<not> distinct (map chunk_id (deduplicate prev [a, b])))
   \<and> (sources r = [a, b] \<and> chunk_id a = chunk_id b
       \<and> chunk_id a \<notin> chunk_id ` set (sources_st s) \<longrightarrow>
      sources_st (send_settle (Resolved r) s) = sources_st s @ [a, b]
      \<and> \<not> distinct (map chunk_id (sources_st (send_settle (Resolved r) s))))"
  by (simp add: on_finally_def on_response_sources deduplicate_filter)

theorem duplicates_within_one_result_witness:
  "sources (reply\<lparr>sources := [citation ''c7'' ''Page 1'', citation ''c7'' ''Page 2'']\<rparr>)
      = [citation ''c7'' ''Page 1'', citation ''c7'' ''Page 2'']
   \<and> chunk_id (citation ''c7'' ''Page 1'') = chunk_id (citation ''c7'' ''Page 2'')
   \<and> chunk_id (citation ''c7'' ''Page 1'') \<notin> chunk_id ` set (sources_st initial_page)
   \<and> distinct (map chunk_id (sources_st initial_page))
   \<and> sources_st (send_settle
        (Resolved (reply\<lparr>sources := [citation ''c7'' ''Page 1'', citation ''c7'' ''Page 2'']\<rparr>))
        initial_page)
       = sources_st initial_page @ [citation ''c7'' ''Page 1'', citation ''c7'' ''Page 2'']
   \<and> \<not> distinct (map chunk_id (sources_st (send_settle
        (Resolved (reply\<lparr>sources := [citation ''c7'' ''Page 1'', citation ''c7'' ''Page 2'']\<rparr>))
        initial_page)))
   \<and> deduplicate [] [citation ''c7'' ''Page 1'', citation ''c7'' ''Page 2'']
       = [] @ [citation ''c7'' ''Page 1'', citation ''c7'' ''Page 2'']"
  using duplicates_within_one_result [where a = "citation ''c7'' ''Page 1''"
          and b = "citation ''c7'' ''Page 2''" and prev = "[]" and s = initial_page
          and r = "reply\<lparr>sources := [citation ''c7'' ''Page 1'', citation ''c7'' ''Page 2'']\<rparr>"]
  by (simp add: citation_def initial_page_def)

lemma submit_and_wait_submit_failed:
  "submit_and_wait (Response_not_ok s Unparseable) st script
     = Rejected (Thrown_APIError \<lparr>message_err = ''API error: '' @ decimal s,
                                   status_err = s, details = Error_body Missing\<rparr>)"
  "submit_and_wait (Response_not_ok s (Value_body d)) st script
     = Rejected (Thrown_APIError \<lparr>message_err = detail_or d (''API error: '' @ decimal s),
                                   status_err = s, details = Error_body d\<rparr>)"
  "submit_and_wait (Response_not_ok s (Null_body m)) st script = Rejected (Thrown_other (Some m))"
  "submit_and_wait (Fetch_rejected m') st script = Rejected (Thrown_other m')"
  by (simp_all add: submit_and_wait_def sendChatMessage_def fetchAPI_def)

lemma send_settle_length:
  "out \<noteq> Unsettled \<Longrightarrow> length (messages (send_settle out s)) = length (messages s) + 1"
  by (cases out) (simp_all add: on_finally_def on_response_messages on_catch_def)

section \<open>Turns and the transcript\<close>

text \<open>
  Claim C7. A turn adds exactly two messages to the transcript. The user message is
  appended by the part of \<^verbatim>\<open>handleSendMessage\<close> that runs at the call, which takes
  nothing from the network. When the submission and the poll have settled, exactly
  one assistant message follows: the \<^verbatim>\<open>message\<close> field of the result if the poll
  resolved, the message of what was thrown (or the fixed apology when it has none) if
  the submission or the poll failed. The settling part appends one message to
  whatever the list is at that moment. The turn does settle: the page polls with the
  default wait of ten minutes and the default interval of five seconds, so at most
  120 fetches are made.
\<close>

theorem turn_appends_two_messages:
  "messages (send_begin c s) = messages s @ [\<lparr>role = user, content = c\<rparr>]
   \<and> (\<forall>r. submit_and_wait x st script = Resolved r \<longrightarrow>
         messages (handleSendMessage c x st script s)
           = messages s @ [\<lparr>role = user, content = c\<rparr>,
                           \<lparr>role = assistant, content = message r\<rparr>])
   \<and> (\<forall>e. submit_and_wait x st script = Rejected e \<longrightarrow>
         messages (handleSendMessage c x st script s)
           = messages s @ [\<lparr>role = user, content = c\<rparr>,
                           \<lparr>role = assistant,
                            content = or_else (message_of e)
                              ''Sorry, I encountered an error processing your request. Please try again.''\<rparr>])
   \<and> (submit_and_wait x st script \<noteq> Unsettled \<longrightarrow>
         length (messages (handleSendMessage c x st script s)) = length (messages s) + 2)
   \<and> (out \<noteq> Unsettled \<longrightarrow>
         length (messages (send_settle out s')) = length (messages s') + 1)
   \<and> (120 \<le> length script \<longrightarrow>
         length (messages (handleSendMessage c x st script s)) = length (messages s) + 2)"
proof (intro conjI allI impI)
  show "messages (send_begin c s) = messages s @ [\<lparr>role = user, content = c\<rparr>]"
    by (simp add: send_begin_def)
next
  fix r assume "submit_and_wait x st script = Resolved r"
  then show "messages (handleSendMessage c x st script s)
           = messages s @ [\<lparr>role = user, content = c\<rparr>, \<lparr>role = assistant, content = message r\<rparr>]"
    by (simp add: handleSendMessage_def on_finally_def on_response_messages send_begin_def)
next
  fix e assume "submit_and_wait x st script = Rejected e"
  then show "messages (handleSendMessage c x st script s)
           = messages s @ [\<lparr>role = user, content = c\<rparr>,
                           \<lparr>role = assistant,
                            content = or_else (message_of e)
                              ''Sorry, I encountered an error processing your request. Please try again.''\<rparr>]"
    by (simp add: handleSendMessage_def on_catch_eq send_begin_def)
next
  assume "submit_and_wait x st script \<noteq> Unsettled"
  then show "length (messages (handleSendMessage c x st script s)) = length (messages s) + 2"
    by (simp add: handleSendMessage_def send_settle_length send_begin_def)
next
  assume "out \<noteq> Unsettled"
  then show "length (messages (send_settle out s')) = length (messages s') + 1"
    by (rule send_settle_length)
next
  assume "120 \<le> length script"
  then have "submit_and_wait x st script \<noteq> Unsettled"
    by (rule submit_and_wait_settles)
  then show "length (messages (handleSendMessage c x st script s)) = length (messages s) + 2"
    by (simp add: handleSendMessage_def send_settle_length send_begin_def)
qed

theorem turn_appends_two_messages_witness:
  "submit_and_wait accepted 0
      [took 30 (Response_ok (snapshot processing None None)),
       took 30 (Response_ok (snapshot completed (Some reply) None))] = Resolved reply
   \<and> messages (handleSendMessage ''I want a drought-tolerant microbial strain'' accepted 0
        [took 30 (Response_ok (snapshot processing None None)),
         took 30 (Response_ok (snapshot completed (Some reply) None))] initial_page)
       = [WELCOME_MESSAGE,
          \<lparr>role = user, content = ''I want a drought-tolerant microbial strain''\<rparr>,
          \<lparr>role = assistant, content = ''Here is a plan...''\<rparr>]
   \<and> submit_and_wait (Response_not_ok 503 Unparseable) 0 [] = Rejected (Thrown_APIError
        \<lparr>message_err = ''API error: 503'', status_err = 503, details = Error_body Missing\<rparr>)
   \<and> messages (handleSendMessage ''hello'' (Response_not_ok 503 Unparseable) 0 [] initial_page)
       = [WELCOME_MESSAGE, \<lparr>role = user, content = ''hello''\<rparr>,
          \<lparr>role = assistant, content = ''API error: 503''\<rparr>]
   \<and> submit_and_wait (Response_not_ok 503 Unparseable) 0 [] \<noteq> Unsettled
   \<and> length (messages (handleSendMessage ''hello'' (Response_not_ok 503 Unparseable) 0 [] initial_page))
       = length (messages initial_page) + 2
   \<and> 120 \<le> length (replicate 120 (took 30 (Response_ok (snapshot processing None None))))
   \<and> length (messages (handleSendMessage ''hello'' accepted 0
                 (replicate 120 (took 30 (Response_ok (snapshot processing None None)))) initial_page))
       = length (messages initial_page) + 2"
proof -
  let ?script = "[took 30 (Response_ok (snapshot processing None None)),
                  took 30 (Response_ok (snapshot completed (Some reply) None))]"
  have ok: "submit_and_wait accepted 0 ?script = Resolved reply"
    by (simp add: accepted_def took_def submit_and_wait_snapshot iteration_snapshot snapshot_def
          poll_loop_Return sleep_def)
  have bad: "submit_and_wait (Response_not_ok 503 Unparseable) 0 [] = Rejected (Thrown_APIError
        \<lparr>message_err = ''API error: 503'', status_err = 503, details = Error_body Missing\<rparr>)"
    by (simp add: submit_and_wait_submit_failed digit_char_def)
  have settled: "submit_and_wait (Response_not_ok 503 Unparseable) 0 [] \<noteq> Unsettled"
    by (simp add: bad)
  note t1 = turn_appends_two_messages [where x = accepted and st = 0 and script = ?script
              and c = "''I want a drought-tolerant microbial strain''" and s = initial_page]
  note t2 = turn_appends_two_messages [where x = "Response_not_ok 503 Unparseable" and st = 0
              and script = "[]" and c = "''hello''" and s = initial_page]
  from t1 ok have a: "messages (handleSendMessage ''I want a drought-tolerant microbial strain''
        accepted 0 ?script initial_page)
       = [WELCOME_MESSAGE,
          \<lparr>role = user, content = ''I want a drought-tolerant microbial strain''\<rparr>,
          \<lparr>role = assistant, content = ''Here is a plan...''\<rparr>]"
    by (simp add: initial_page_def reply_def)
  from t2 bad have b: "messages (handleSendMessage ''hello'' (Response_not_ok 503 Unparseable) 0 [] initial_page)
       = [WELCOME_MESSAGE, \<lparr>role = user, content = ''hello''\<rparr>,
          \<lparr>role = assistant, content = ''API error: 503''\<rparr>]"
    by (simp add: initial_page_def)
  from t2 settled have c: "length (messages (handleSendMessage ''hello'' (Response_not_ok 503 Unparseable) 0 [] initial_page))
       = length (messages initial_page) + 2"
    by blast
  have long: "120 \<le> length (replicate 120 (took 30 (Response_ok (snapshot processing None None))))"
    by simp
  from long turn_appends_two_messages [where x = accepted and st = 0 and c = "''hello''"
         and script = "replicate 120 (took 30 (Response_ok (snapshot processing None None)))"
         and s = initial_page]
  have d: "length (messages (handleSendMessage ''hello'' accepted 0
                 (replicate 120 (took 30 (Response_ok (snapshot processing None None)))) initial_page))
       = length (messages initial_page) + 2"
    by blast
  from ok a bad b settled c long d show ?thesis by blast
qed

section \<open>Failed turns\<close>

text \<open>
  Claim C8. When the submission or the poll fails, the turn changes the page in two
  places only: the transcript gains the user message and one assistant message whose
  content is the message of what was thrown, or the fixed apology when that message
  is absent or empty, and the loading flag is cleared. The plan, the sources and the
  conversation identifier are as before. The failure is a value handled by the
  \<^verbatim>\<open>catch\<close> clause; the function yields a page for each, and nothing is thrown on.
  The loading flag is false after every settled turn, resolved or rejected, and a turn
  whose fetches all return settles within 120 of them.
\<close>

theorem failed_turn_frame:
  "(submit_and_wait x st script = Rejected e \<longrightarrow>
      handleSendMessage c x st script s
        = s\<lparr>messages := messages s @
               [\<lparr>role = user, content = c\<rparr>,
                \<lparr>role = assistant,
                 content = or_else (message_of e)
                   ''Sorry, I encountered an error processing your request. Please try again.''\<rparr>],
            isLoading := False\<rparr>)
   \<and> send_settle (Rejected e) s'
        = s'\<lparr>messages := messages s' @
                [\<lparr>role = assistant,
                  content = or_else (message_of e)
                    ''Sorry, I encountered an error processing your request. Please try again.''\<rparr>],
             isLoading := False\<rparr>
   \<and> currentPlan (send_settle (Rejected e) s') = currentPlan s'
   \<and> sources_st (send_settle (Rejected e) s') = sources_st s'
   \<and> conversationId (send_settle (Rejected e) s') = conversationId s'
   \<and> (out \<noteq> Unsettled \<longrightarrow> \<not> isLoading (send_settle out s'))
   \<and> (120 \<le> length script \<longrightarrow> \<not> isLoading (handleSendMessage c x st script s))"
proof (intro conjI impI)
  show eq: "send_settle (Rejected e) s'
        = s'\<lparr>messages := messages s' @
                [\<lparr>role = assistant,
                  content = or_else (message_of e)
                    ''Sorry, I encountered an error processing your request. Please try again.''\<rparr>],
             isLoading := False\<rparr>"
    by (simp add: on_catch_eq)
  show "currentPlan (send_settle (Rejected e) s') = currentPlan s'"
    and "sources_st (send_settle (Rejected e) s') = sources_st s'"
    and "conversationId (send_settle (Rejected e) s') = conversationId s'"
    by (simp_all add: on_catch_eq)
next
  assume "submit_and_wait x st script = Rejected e"
  then show "handleSendMessage c x st script s
        = s\<lparr>messages := messages s @
               [\<lparr>role = user, content = c\<rparr>,
                \<lparr>role = assistant,
                 content = or_else (message_of e)
                   ''Sorry, I encountered an error processing your request. Please try again.''\<rparr>],
            isLoading := False\<rparr>"
    by (simp add: handleSendMessage_def on_catch_eq send_begin_def)
next
  assume "out \<noteq> Unsettled"
  then show "\<not> isLoading (send_settle out s')"
    by (cases out) (simp_all add: on_finally_def)
next
  assume "120 \<le> length script"
  then have "submit_and_wait x st script \<noteq> Unsettled"
    by (rule submit_and_wait_settles)
  then show "\<not> isLoading (handleSendMessage c x st script s)"
    by (cases "submit_and_wait x st script") (simp_all add: handleSendMessage_def on_finally_def)
qed

theorem failed_turn_frame_witness:
  "submit_and_wait accepted 0 [took 30 (Response_ok (snapshot failed None (Some ''model overloaded'')))]
     = Rejected (Thrown_APIError \<lparr>message_err = ''model overloaded'', status_err = 500,
                                   details = Job_error ''j1'' (Some ''model overloaded'')\<rparr>)
   \<and> handleSendMessage ''next step?'' accepted 0
        [took 30 (Response_ok (snapshot failed None (Some ''model overloaded'')))]
        (send_settle (Resolved reply) initial_page)
       = (send_settle (Resolved reply) initial_page)
           \<lparr>messages := [WELCOME_MESSAGE, \<lparr>role = assistant, content = ''Here is a plan...''\<rparr>,
                          \<lparr>role = user, content = ''next step?''\<rparr>,
                          \<lparr>role = assistant, content = ''model overloaded''\<rparr>],
             isLoading := False\<rparr>
   \<and> currentPlan (send_settle (Resolved reply) initial_page) = Some drought_plan
   \<and> Resolved reply \<noteq> Unsettled
   \<and> \<not> isLoading (send_settle (Resolved reply) (send_begin ''q'' initial_page))
   \<and> content (last (messages (send_settle (Rejected (Thrown_other None)) initial_page)))
       = ''Sorry, I encountered an error processing your request. Please try again.''
   \<and> 120 \<le> length (replicate 120 (took 30 (Response_not_ok 404 Unparseable)))
   \<and> \<not> isLoading (handleSendMessage ''next step?'' accepted 0
             (replicate 120 (took 30 (Response_not_ok 404 Unparseable))) initial_page)"
proof -
  let ?script = "[took 30 (Response_ok (snapshot failed None (Some ''model overloaded'')))]"
  let ?e = "Thrown_APIError \<lparr>message_err = ''model overloaded'', status_err = 500,
                              details = Job_error ''j1'' (Some ''model overloaded'')\<rparr>"
  let ?s = "send_settle (Resolved reply) initial_page"
  have bad: "submit_and_wait accepted 0 ?script = Rejected ?e"
    by (simp add: accepted_def took_def submit_and_wait_snapshot iteration_snapshot snapshot_def)
  have plan: "currentPlan ?s = Some drought_plan"
    by (simp add: on_finally_def on_response_plan reply_def)
  note t = failed_turn_frame [where x = accepted and st = 0 and script = ?script and e = ?e
             and c = "''next step?''" and s = ?s and out = "Resolved reply"
             and s' = "send_begin ''q'' initial_page"]
  note u = failed_turn_frame [where e = "Thrown_other None" and s' = initial_page]
  from t bad have a: "handleSendMessage ''next step?'' accepted 0 ?script ?s
       = ?s\<lparr>messages := [WELCOME_MESSAGE, \<lparr>role = assistant, content = ''Here is a plan...''\<rparr>,
                          \<lparr>role = user, content = ''next step?''\<rparr>,
                          \<lparr>role = assistant, content = ''model overloaded''\<rparr>],
             isLoading := False\<rparr>"
    by (simp add: on_finally_def on_response_messages initial_page_def reply_def)
  from t have b: "\<not> isLoading (send_settle (Resolved reply) (send_begin ''q'' initial_page))"
    by simp
  from u have c: "content (last (messages (send_settle (Rejected (Thrown_other None)) initial_page)))
       = ''Sorry, I encountered an error processing your request. Please try again.''"
    by simp
  have long: "120 \<le> length (replicate 120 (took 30 (Response_not_ok 404 Unparseable)))"
    by simp
  from long failed_turn_frame [where x = accepted and st = 0 and c = "''next step?''"
         and script = "replicate 120 (took 30 (Response_not_ok 404 Unparseable))" and s = initial_page]
  have d: "\<not> isLoading (handleSendMessage ''next step?'' accepted 0
             (replicate 120 (took 30 (Response_not_ok 404 Unparseable))) initial_page)"
    by blast
  from bad a plan b c long d show ?thesis by simp
qed

section \<open>A new conversation while a turn is in flight\<close>

text \<open>
  Claim C1 says that a result arriving after \<^verbatim>\<open>handleNewChat\<close> is discarded, the
  conversation identifier of the submission being compared with the current one.
  \<^verbatim>\<open>handleSendMessage\<close> keeps no such identifier and compares nothing: its setters
  run on the state as it is when the poll settles. A turn is begun, the conversation
  is reset, the poll resolves: the reset page takes the reply, its plan and its
  sources.
\<close>

theorem stale_result_counterexample:
  "messages (send_settle
       (submit_and_wait accepted 0 [took 40 (Response_ok (snapshot completed (Some reply) None))])
       (handleNewChat (send_begin ''first question'' initial_page)))
     \<noteq> [WELCOME_MESSAGE]
   \<and> currentPlan (send_settle
       (submit_and_wait accepted 0 [took 40 (Response_ok (snapshot completed (Some reply) None))])
       (handleNewChat (send_begin ''first question'' initial_page)))
     \<noteq> None
   \<and> sources_st (send_settle
       (submit_and_wait accepted 0 [took 40 (Response_ok (snapshot completed (Some reply) None))])
       (handleNewChat (send_begin ''first question'' initial_page)))
     \<noteq> []"
  by (simp add: accepted_def took_def submit_and_wait_snapshot iteration_snapshot snapshot_def
        on_finally_def on_response_messages on_response_plan on_response_sources
        deduplicate_filter handleNewChat_def reply_def)

text \<open>
  Claim C1, amended. \<^verbatim>\<open>handleNewChat\<close> sets the messages to the welcome message
  alone, the plan to null, the sources to the empty list and the conversation
  identifier to null, and leaves the loading flag as it is. The page stays so while
  the poll of a turn in flight has not settled. When that poll resolves, its result
  is merged into the reset page as into any other: the messages become the welcome
  message and the reply, the plan and the sources become those of the result (the
  plan stays null when the result has none), the conversation identifier becomes
  that of the result if it is not empty, and the loading flag is cleared. When the
  poll rejects, the error message is appended to the welcome message and the loading
  flag is cleared.
\<close>

theorem stale_result_is_merged:
  "messages (handleNewChat s) = [WELCOME_MESSAGE]
   \<and> currentPlan (handleNewChat s) = None
   \<and> sources_st (handleNewChat s) = []
   \<and> conversationId (handleNewChat s) = None
   \<and> isLoading (handleNewChat s) = isLoading s
   \<and> send_settle Unsettled (handleNewChat s) = handleNewChat s
   \<and> send_settle (Resolved r) (handleNewChat s)
       = (handleNewChat s)
           \<lparr>messages := [WELCOME_MESSAGE, \<lparr>role = assistant, content = message r\<rparr>],
            currentPlan := plan r,
            sources_st := sources r,
            conversationId := (if conversation_id r = [] then None else Some (conversation_id r)),
            isLoading := False\<rparr>
   \<and> send_settle (Rejected e) (handleNewChat s)
       = (handleNewChat s)
           \<lparr>messages := [WELCOME_MESSAGE,
                          \<lparr>role = assistant,
                           content = or_else (message_of e)
                             ''Sorry, I encountered an error processing your request. Please try again.''\<rparr>],
            isLoading := False\<rparr>"
proof -
  have "send_settle (Resolved r) (handleNewChat s)
       = (handleNewChat s)
           \<lparr>messages := [WELCOME_MESSAGE, \<lparr>role = assistant, content = message r\<rparr>],
            currentPlan := plan r,
            sources_st := sources r,
            conversationId := (if conversation_id r = [] then None else Some (conversation_id r)),
            isLoading := False\<rparr>"
    by (rule Page.equality)
       (simp_all add: on_finally_def on_response_messages on_response_plan on_response_sources
          on_response_id on_response_rest on_response_more deduplicate_filter handleNewChat_def
          split: option.splits)
  moreover have "send_settle (Rejected e) (handleNewChat s)
       = (handleNewChat s)
           \<lparr>messages := [WELCOME_MESSAGE,
                          \<lparr>role = assistant,
                           content = or_else (message_of e)
                             ''Sorry, I encountered an error processing your request. Please try again.''\<rparr>],
            isLoading := False\<rparr>"
    by (simp add: on_catch_eq handleNewChat_def)
  ultimately show ?thesis
    by (simp add: handleNewChat_def)
qed

theorem stale_result_is_merged_witness:
  "send_settle (Resolved reply) (handleNewChat (send_begin ''first question'' initial_page))
     = \<lparr>messages = [WELCOME_MESSAGE, \<lparr>role = assistant, content = ''Here is a plan...''\<rparr>],
        initialGoalProcessed = False, currentPlan = Some drought_plan,
        sources_st = [citation ''c1'' ''Root assays''], conversationId = Some ''conv-1'',
        isLoading = False, isHistoryOpen = False\<rparr>
   \<and> handleNewChat (send_begin ''first question'' initial_page)
     = \<lparr>messages = [WELCOME_MESSAGE], initialGoalProcessed = False, currentPlan = None,
        sources_st = [], conversationId = None, isLoading = True, isHistoryOpen = False\<rparr>"
  using stale_result_is_merged [where s = "send_begin ''first question'' initial_page" and r = reply]
  by (simp add: handleNewChat_def send_begin_def initial_page_def reply_def)

section \<open>Turns while a turn is in flight\<close>

text \<open>
  Claim C6 says that \<^verbatim>\<open>handleSendMessage\<close>, called while the loading flag is set,
  appends nothing and submits nothing. The function does not read the flag. The
  effect on the \<^verbatim>\<open>goal\<close> query parameter calls it directly: the page is opened with
  a goal, the effect sends it, and New Chat while that turn is in flight lets the
  effect send it again, with the flag still set.
\<close>

theorem second_turn_counterexample:
  "isLoading (handleNewChat (fst (goal_effect (Some ''grow rice'') initial_page)))
   \<and> messages (fst (goal_effect (Some ''grow rice'')
                  (handleNewChat (fst (goal_effect (Some ''grow rice'') initial_page)))))
       = messages (handleNewChat (fst (goal_effect (Some ''grow rice'') initial_page)))
           @ [\<lparr>role = user, content = ''grow rice''\<rparr>]
   \<and> snd (goal_effect (Some ''grow rice'')
                  (handleNewChat (fst (goal_effect (Some ''grow rice'') initial_page))))
       = [\<lparr>message_req = ''grow rice'', conversation_id_req = None, context_req = None\<rparr>]"
  by (simp add: goal_effect_def handleNewChat_def send_begin_def initial_page_def chat_request_def)

text \<open>
  Claim C6, amended. The guard is in the message box: while the loading flag is set,
  \<^verbatim>\<open>handleSubmit\<close> does not call \<^verbatim>\<open>onSend\<close>, so no user message is appended,
  no job is submitted, and the page and the typed text stay as they are; with the
  flag clear and a text that is not blank it sends the trimmed text.
  \<^verbatim>\<open>handleSendMessage\<close> itself has no guard: whatever the flag, a call appends the
  user message and sets the flag.
\<close>

theorem message_box_closed_while_loading:
  "(isLoading s \<longrightarrow>
      handleSubmit input (isLoading s) = (None, input) \<and> type_and_send input s = (s, []))
   \<and> (\<not> isLoading s \<and> trim input \<noteq> [] \<longrightarrow>
      type_and_send input s = (send_begin (trim input) s, [chat_request (trim input) s]))
   \<and> messages (send_begin c s) = messages s @ [\<lparr>role = user, content = c\<rparr>]
   \<and> isLoading (send_begin c s)"
  by (simp add: handleSubmit_def type_and_send_def send_begin_def)

theorem message_box_closed_while_loading_witness:
  "isLoading (send_begin ''first question'' initial_page)
   \<and> type_and_send ''  and another  '' (send_begin ''first question'' initial_page)
       = (send_begin ''first question'' initial_page, [])
   \<and> handleSubmit ''  and another  '' (isLoading (send_begin ''first question'' initial_page))
       = (None, ''  and another  '')
   \<and> \<not> isLoading initial_page \<and> trim ''  and another  '' \<noteq> []
   \<and> type_and_send ''  and another  '' initial_page
       = (send_begin ''and another'' initial_page,
          [\<lparr>message_req = ''and another'', conversation_id_req = None, context_req = None\<rparr>])
   \<and> messages (send_begin ''and another'' (send_begin ''first question'' initial_page))
       = [WELCOME_MESSAGE, \<lparr>role = user, content = ''first question''\<rparr>,
          \<lparr>role = user, content = ''and another''\<rparr>]"
proof -
  have t: "trim ''  and another  '' = ''and another''"
    by (simp add: trim_def is_space_def)
  note a = message_box_closed_while_loading [where s = "send_begin ''first question'' initial_page"
             and input = "''  and another  ''"]
  note b = message_box_closed_while_loading [where s = initial_page and input = "''  and another  ''"]
  note c = message_box_closed_while_loading [where c = "''and another''"
             and s = "send_begin ''first question'' initial_page"]
  have l: "isLoading (send_begin ''first question'' initial_page)"
    by (simp add: send_begin_def)
  have n: "\<not> isLoading initial_page"
    by (simp add: initial_page_def)
  from a l have a': "type_and_send ''  and another  '' (send_begin ''first question'' initial_page)
       = (send_begin ''first question'' initial_page, [])"
    "handleSubmit ''  and another  '' (isLoading (send_begin ''first question'' initial_page))
       = (None, ''  and another  '')"
    by blast+
  from b n t have b': "type_and_send ''  and another  '' initial_page
       = (send_begin ''and another'' initial_page,
          [\<lparr>message_req = ''and another'', conversation_id_req = None, context_req = None\<rparr>])"
    by (simp add: chat_request_def initial_page_def)
  from c have c': "messages (send_begin ''and another'' (send_begin ''first question'' initial_page))
       = [WELCOME_MESSAGE, \<lparr>role = user, content = ''first question''\<rparr>,
          \<lparr>role = user, content = ''and another''\<rparr>]"
    by (simp add: send_begin_def initial_page_def)
  from l a' n t b' c' show ?thesis by simp
qed

end
